theory Spec2Isabelle
  imports Main "HOL-Library.Sublist"
begin

section \<open>Python values handled by contracts/deploy.py\<close>

text \<open>
  The script is a straight-line sequence of calls into the starknet\_py SDK and the
  standard library. Every such call is external to the repository: the model takes the
  outcome of each call site (a returned value or a raised exception) as an input and
  records what the script itself does with it: the order of the calls, their arguments,
  the printed lines, the early return, the top-level handler and the exit status.
\<close>

text \<open>
  Instances of Python's \<open>Exception\<close>, as a call of the SDK or of the standard library
  raises them. The payload is the text \<open>str(e)\<close> that an f-string prints.
\<close>

datatype py_exception =
    FileNotFoundError string
  | IndexError string
  | KeyError string
  | OtherError string

fun str_exception :: "py_exception \<Rightarrow> string" where
  "str_exception (FileNotFoundError t) = t"
| "str_exception (IndexError t) = t"
| "str_exception (KeyError t) = t"
| "str_exception (OtherError t) = t"

text \<open>An opaque Python object (parsed JSON, an ABI, a call result), known by its \<open>str()\<close>.\<close>

datatype py_object = PyObject (py_str: string)

text \<open>Python's \<open>hex\<close> on an unbounded integer: lower-case digits, a sign before \<open>0x\<close>.\<close>

fun hex_digits :: "nat \<Rightarrow> string" where
  "hex_digits n =
     (if n < 16 then [''0123456789abcdef'' ! n]
      else hex_digits (n div 16) @ [''0123456789abcdef'' ! (n mod 16)])"

definition hex :: "int \<Rightarrow> string" where
  "hex i = (if i < 0 then ''-0x'' @ hex_digits (nat (- i)) else ''0x'' @ hex_digits (nat i))"

text \<open>Truthiness of the value \<open>deploy_contract\<close> returns: \<open>None\<close> and \<open>0\<close> are falsy.\<close>

fun truthy :: "int option \<Rightarrow> bool" where
  "truthy None = False"
| "truthy (Some i) = (i \<noteq> 0)"

section \<open>Objects of the SDK\<close>

datatype full_node_client = FullNodeClient (node_url: string)

datatype chain_id = SEPOLIA

datatype key_pair = KeyPair (private_key: int) (public_key: int)

record account =
  address :: int

record call =
  to_addr :: int
  selector :: string
  calldata :: "int list"

record declare_result =
  transaction_hash :: int
  class_hash :: int

record invoke_result =
  transaction_hash :: int

record receipt_event =
  from_address :: int

record receipt =
  events :: "receipt_event list"

text \<open>A contract handle: the keys of its \<open>functions\<close> dictionary, taken from the ABI.\<close>

record contract =
  contract_functions :: "string list"

record supply_result =
  total_supply :: py_object

section \<open>Effects\<close>

text \<open>
  The external calls of the script, with their arguments. The first six are local or
  file-system calls, the last six go to the network through the client.
\<close>

datatype request =
    KeyPair_from_private_key string
  | Account_init string full_node_client key_pair chain_id
  | Open_json_load string
  | Open_json_dump string "(string \<times> string) list"
  | Getitem py_object string
  | Contract_init int py_object account
  | Sign_declare_v2 py_object int
  | Wait_for_tx int
  | Sign_invoke_v1 "call list" int
  | Get_transaction_receipt int
  | Function_call string "(string \<times> int) list"
  | Function_invoke_v1 string "(string \<times> int) list" int

fun is_network :: "request \<Rightarrow> bool" where
  "is_network (Sign_declare_v2 c f) = True"
| "is_network (Wait_for_tx h) = True"
| "is_network (Sign_invoke_v1 cs f) = True"
| "is_network (Get_transaction_receipt h) = True"
| "is_network (Function_call n a) = True"
| "is_network (Function_invoke_v1 n a f) = True"
| "is_network r = False"

text \<open>
  What a run leaves behind, in order: a printed line, a synchronous call, and for an
  awaited coroutine its submission and its completion (by a result or by an exception).
\<close>

datatype effect =
    Print string
  | Called request
  | Submitted request
  | Completed request

text \<open>A computation: the effects it had, and the exception it raised or the value it returned.\<close>

type_synonym 'a io = "effect list \<times> (py_exception + 'a)"

definition io_return :: "'a \<Rightarrow> 'a io" where
  "io_return x = ([], Inr x)"

definition raise :: "py_exception \<Rightarrow> 'a io" where
  "raise e = ([], Inl e)"

definition io_bind :: "'a io \<Rightarrow> ('a \<Rightarrow> 'b io) \<Rightarrow> 'b io" where
  "io_bind m f =
     (case m of
        (es, Inl e) \<Rightarrow> (es, Inl e)
      | (es, Inr x) \<Rightarrow> (case f x of (es', r) \<Rightarrow> (es @ es', r)))"

text \<open>A computation after the effects \<open>es\<close>.\<close>

definition prepend :: "effect list \<Rightarrow> 'a io \<Rightarrow> 'a io" where
  "prepend es m = (es @ fst m, snd m)"

definition print :: "string \<Rightarrow> unit io" where
  "print s = ([Print s], Inr ())"

text \<open>A synchronous external call, whose outcome \<open>r\<close> the environment gives.\<close>

definition called :: "request \<Rightarrow> py_exception + 'a \<Rightarrow> 'a io" where
  "called q r = ([Called q], r)"

text \<open>
  \<open>await\<close> on a coroutine of the SDK: the caller is suspended from the submission to the
  completion, and goes on (or propagates the exception) only after it.
\<close>

definition await :: "request \<Rightarrow> py_exception + 'a \<Rightarrow> 'a io" where
  "await q r = ([Submitted q, Completed q], r)"

text \<open>
  \<open>try: body  except FileNotFoundError: handler\<close>, where the handler ends with
  \<open>return\<close>: its value is the value of the whole function, and \<open>rest\<close> (the statements
  after the \<open>try\<close>) runs only when the body raised nothing.
\<close>

definition try_except_FileNotFoundError :: "'a io \<Rightarrow> 'b io \<Rightarrow> ('a \<Rightarrow> 'b io) \<Rightarrow> 'b io" where
  "try_except_FileNotFoundError body handler rest =
     (case body of
        (es, Inl (FileNotFoundError t)) \<Rightarrow> (case handler of (es', r) \<Rightarrow> (es @ es', r))
      | (es, Inl e) \<Rightarrow> (es, Inl e)
      | (es, Inr x) \<Rightarrow> (case rest x of (es', r) \<Rightarrow> (es @ es', r)))"

text \<open>\<open>xs[i]\<close> on a Python list: a negative index counts from the end.\<close>

definition list_getitem :: "'a list \<Rightarrow> int \<Rightarrow> 'a io" where
  "list_getitem xs i =
     (let n = int (length xs); j = (if i < 0 then n + i else i)
      in if 0 \<le> j \<and> j < n then io_return (xs ! nat j)
         else raise (IndexError ''list index out of range''))"

text \<open>\<open>KeyError(name)\<close>: its \<open>str\<close> is the repr of the key, the name in single quotes.\<close>

definition key_error :: "string \<Rightarrow> py_exception" where
  "key_error name = KeyError ([CHR 0x27] @ name @ [CHR 0x27])"

text \<open>\<open>contract.functions[name]\<close>: a dictionary lookup.\<close>

definition functions_getitem :: "contract \<Rightarrow> string \<Rightarrow> unit io" where
  "functions_getitem c name =
     (if name \<in> set (contract_functions c) then io_return () else raise (key_error name))"

section \<open>Configuration\<close>

definition TESTNET_RPC_URL :: string where
  "TESTNET_RPC_URL = ''https://starknet-sepolia.public.blastapi.io/rpc/v0_7''"

definition CONTRACT_COMPILED_PATH :: string where
  "CONTRACT_COMPILED_PATH = ''medical_scan_nft_compiled.json''"

text \<open>
  The two constants the file asks its user to replace before running. The file as
  committed holds \<open>source_config\<close>.
\<close>

record config =
  ACCOUNT_ADDRESS :: string
  PRIVATE_KEY :: string

definition source_config :: config where
  "source_config =
     \<lparr>ACCOUNT_ADDRESS = ''YOUR_ACCOUNT_ADDRESS_HERE'', PRIVATE_KEY = ''YOUR_PRIVATE_KEY_HERE''\<rparr>"

text \<open>\<open>int(1e16)\<close>: the double 1e16 is the integer \<open>10^16\<close> exactly.\<close>

definition int_1e16 :: int where
  "int_1e16 = 10000000000000000"

text \<open>The emoji of the printed lines, as the UTF-8 bytes \<open>print\<close> writes.\<close>

definition U_1F3E5 :: string where "U_1F3E5 = [CHR 0xF0, CHR 0x9F, CHR 0x8F, CHR 0xA5]"
definition U_1F4F1 :: string where "U_1F4F1 = [CHR 0xF0, CHR 0x9F, CHR 0x93, CHR 0xB1]"
definition U_274C :: string where "U_274C = [CHR 0xE2, CHR 0x9D, CHR 0x8C]"
definition U_1F4C4 :: string where "U_1F4C4 = [CHR 0xF0, CHR 0x9F, CHR 0x93, CHR 0x84]"
definition U_1F4E4 :: string where "U_1F4E4 = [CHR 0xF0, CHR 0x9F, CHR 0x93, CHR 0xA4]"
definition U_2705 :: string where "U_2705 = [CHR 0xE2, CHR 0x9C, CHR 0x85]"
definition U_1F680 :: string where "U_1F680 = [CHR 0xF0, CHR 0x9F, CHR 0x9A, CHR 0x80]"
definition U_1F389 :: string where "U_1F389 = [CHR 0xF0, CHR 0x9F, CHR 0x8E, CHR 0x89]"
definition U_1F4CD :: string where "U_1F4CD = [CHR 0xF0, CHR 0x9F, CHR 0x93, CHR 0x8D]"
definition U_1F517 :: string where "U_1F517 = [CHR 0xF0, CHR 0x9F, CHR 0x94, CHR 0x97]"
definition U_1F3F7_FE0F :: string where
  "U_1F3F7_FE0F = [CHR 0xF0, CHR 0x9F, CHR 0x8F, CHR 0xB7, CHR 0xEF, CHR 0xB8, CHR 0x8F]"
definition U_1F4BE :: string where "U_1F4BE = [CHR 0xF0, CHR 0x9F, CHR 0x92, CHR 0xBE]"
definition U_1F9EA :: string where "U_1F9EA = [CHR 0xF0, CHR 0x9F, CHR 0xA7, CHR 0xAA]"
definition U_1F4CA :: string where "U_1F4CA = [CHR 0xF0, CHR 0x9F, CHR 0x93, CHR 0x8A]"
definition U_1F4CB :: string where "U_1F4CB = [CHR 0xF0, CHR 0x9F, CHR 0x93, CHR 0x8B]"

section \<open>The environment of a run\<close>

text \<open>
  The script has no loop, so every call site runs at most once in a run, and a run is
  determined by the configuration and by the outcome of each external call site. An
  outcome of a call site that the run does not reach is not looked at.
\<close>

record deploy_world =
  key_pair_r :: "py_exception + key_pair"
  account_r :: "py_exception + account"
  load_r :: "py_exception + py_object"
  declare_r :: "py_exception + declare_result"
  wait_declare_r :: "py_exception + unit"
  deploy_r :: "py_exception + invoke_result"
  wait_deploy_r :: "py_exception + unit"
  receipt_r :: "py_exception + receipt"
  dump_r :: "py_exception + unit"

record test_world =
  t_key_pair_r :: "py_exception + key_pair"
  t_account_r :: "py_exception + account"
  t_load_r :: "py_exception + py_object"
  abi_r :: "py_exception + py_object"
  contract_r :: "py_exception + contract"
  supply_r :: "py_exception + supply_result"
  mint_r :: "py_exception + invoke_result"
  wait_mint_r :: "py_exception + unit"
  supply_again_r :: "py_exception + supply_result"
  metadata_r :: "py_exception + py_object"

section \<open>deploy\_contract\<close>

definition deployment_info :: "int \<Rightarrow> declare_result \<Rightarrow> invoke_result \<Rightarrow> (string \<times> string) list" where
  "deployment_info contract_address declare_result deploy_result =
     [(''contract_address'', hex contract_address),
      (''class_hash'', hex (class_hash declare_result)),
      (''transaction_hash'', hex (invoke_result.transaction_hash deploy_result)),
      (''network'', ''starknet-sepolia'')]"

definition deploy_contract :: "config \<Rightarrow> deploy_world \<Rightarrow> int option io" where
  "deploy_contract cfg w =
     io_bind (print (U_1F3E5 @ '' Starting Medical NFT Contract Deployment...'')) (\<lambda>_.
     let client = FullNodeClient TESTNET_RPC_URL in
     io_bind (called (KeyPair_from_private_key (PRIVATE_KEY cfg)) (key_pair_r w)) (\<lambda>key_pair.
     io_bind (called (Account_init (ACCOUNT_ADDRESS cfg) client key_pair SEPOLIA) (account_r w))
       (\<lambda>account.
     io_bind (print (U_1F4F1 @ '' Using account: '' @ hex (address account))) (\<lambda>_.
     try_except_FileNotFoundError
       (called (Open_json_load CONTRACT_COMPILED_PATH) (load_r w))
       (io_bind (print (U_274C @ '' Contract file not found: '' @ CONTRACT_COMPILED_PATH)) (\<lambda>_.
        io_bind (print (''Make sure you've compiled the contract with 'scarb build'' @ [CHR 0x27]))
          (\<lambda>_.
        io_return None)))
       (\<lambda>compiled_contract.
     io_bind (print (U_1F4C4 @ '' Contract loaded successfully'')) (\<lambda>_.
     io_bind (print (U_1F4E4 @ '' Declaring contract...'')) (\<lambda>_.
     io_bind (await (Sign_declare_v2 compiled_contract int_1e16) (declare_r w)) (\<lambda>declare_result.
     io_bind (await (Wait_for_tx (declare_result.transaction_hash declare_result))
                (wait_declare_r w)) (\<lambda>_.
     io_bind (print (U_2705 @ '' Contract declared with class hash: ''
                       @ hex (class_hash declare_result))) (\<lambda>_.
     io_bind (print (U_1F680 @ '' Deploying contract...'')) (\<lambda>_.
     io_bind (await (Sign_invoke_v1
                       [\<lparr>to_addr = class_hash declare_result, selector = ''constructor'',
                         calldata = []\<rparr>]
                       int_1e16)
                (deploy_r w)) (\<lambda>deploy_result.
     io_bind (await (Wait_for_tx (invoke_result.transaction_hash deploy_result))
                (wait_deploy_r w)) (\<lambda>_.
     io_bind (await (Get_transaction_receipt (invoke_result.transaction_hash deploy_result))
                (receipt_r w)) (\<lambda>receipt.
     io_bind (list_getitem (events receipt) 0) (\<lambda>event.
     let contract_address = from_address event in
     io_bind (print (U_1F389 @ '' Contract deployed successfully!'')) (\<lambda>_.
     io_bind (print (U_1F4CD @ '' Contract Address: '' @ hex contract_address)) (\<lambda>_.
     io_bind (print (U_1F517 @ '' Transaction Hash: ''
                       @ hex (invoke_result.transaction_hash deploy_result))) (\<lambda>_.
     io_bind (print (U_1F3F7_FE0F @ ''  Class Hash: '' @ hex (class_hash declare_result))) (\<lambda>_.
     io_bind (called (Open_json_dump ''deployment_info.json''
                        (deployment_info contract_address declare_result deploy_result))
                (dump_r w)) (\<lambda>_.
     io_bind (print (U_1F4BE @ '' Deployment info saved to deployment_info.json'')) (\<lambda>_.
     io_return (Some contract_address))))))))))))))))))))))"

section \<open>test\_contract\<close>

definition test_contract :: "config \<Rightarrow> test_world \<Rightarrow> int \<Rightarrow> unit io" where
  "test_contract cfg w contract_address =
     io_bind (print ([CHR 0x0A] @ U_1F9EA @ '' Testing deployed contract...'')) (\<lambda>_.
     let client = FullNodeClient TESTNET_RPC_URL in
     io_bind (called (KeyPair_from_private_key (PRIVATE_KEY cfg)) (t_key_pair_r w)) (\<lambda>key_pair.
     io_bind (called (Account_init (ACCOUNT_ADDRESS cfg) client key_pair SEPOLIA) (t_account_r w))
       (\<lambda>account.
     io_bind (called (Open_json_load CONTRACT_COMPILED_PATH) (t_load_r w)) (\<lambda>contract_data.
     io_bind (called (Getitem contract_data ''abi'') (abi_r w)) (\<lambda>abi.
     io_bind (called (Contract_init contract_address abi account) (contract_r w)) (\<lambda>contract.
     io_bind (functions_getitem contract ''get_total_supply'') (\<lambda>_.
     io_bind (await (Function_call ''get_total_supply'' []) (supply_r w)) (\<lambda>total_supply_1.
     io_bind (print (U_1F4CA @ '' Total Supply: '' @ py_str (total_supply total_supply_1))) (\<lambda>_.
     io_bind (print (U_1F3E5 @ '' Minting test medical NFT...'')) (\<lambda>_.
     io_bind (functions_getitem contract ''mint_medical_nft'') (\<lambda>_.
     io_bind (await (Function_invoke_v1 ''mint_medical_nft''
                       [(''patient_id'', 1234567890),
                        (''scan_type'', 1),
                        (''ipfs_hash'', 0x1234567890abcdef),
                        (''doctor'', 0x9876543210fedcba),
                        (''upload_timestamp'', 1640995200),
                        (''diagnosis_summary'', 0xabcdef1234567890),
                        (''notes'', 0xfedcba0987654321)]
                       int_1e16)
                (mint_r w)) (\<lambda>mint_tx.
     io_bind (await (Wait_for_tx (invoke_result.transaction_hash mint_tx)) (wait_mint_r w)) (\<lambda>_.
     io_bind (print (U_2705 @ '' NFT minted! Transaction: ''
                       @ hex (invoke_result.transaction_hash mint_tx))) (\<lambda>_.
     io_bind (functions_getitem contract ''get_total_supply'') (\<lambda>_.
     io_bind (await (Function_call ''get_total_supply'' []) (supply_again_r w)) (\<lambda>total_supply_2.
     io_bind (print (U_1F4CA @ '' Total Supply after minting: ''
                       @ py_str (total_supply total_supply_2))) (\<lambda>_.
     io_bind (functions_getitem contract ''get_token_metadata'') (\<lambda>_.
     io_bind (await (Function_call ''get_token_metadata'' [(''token_id'', 1)]) (metadata_r w))
       (\<lambda>metadata.
     print (U_1F4CB @ '' Token Metadata: '' @ py_str metadata))))))))))))))))))))"

section \<open>The script body\<close>

text \<open>
  The body of the \<open>try\<close> statement: \<open>asyncio.run\<close> runs one coroutine to its end, and
  \<open>test_contract\<close> is called with the returned address when that value is truthy.
\<close>

definition deploy_then_test :: "config \<Rightarrow> deploy_world \<Rightarrow> test_world \<Rightarrow> unit io" where
  "deploy_then_test cfg dw tw =
     io_bind (deploy_contract cfg dw) (\<lambda>contract_address.
       if truthy contract_address
       then (case contract_address of
               Some a \<Rightarrow> test_contract cfg tw a
             | None \<Rightarrow> io_return ())
       else io_return ())"

text \<open>
  The \<open>__main__\<close> block: the effects of the process and its exit status. \<open>exit(1)\<close> is
  outside the \<open>try\<close>; a process that reaches the end of the file exits with status 0.
\<close>

definition main :: "config \<Rightarrow> deploy_world \<Rightarrow> test_world \<Rightarrow> effect list \<times> int" where
  "main cfg dw tw =
     (if ACCOUNT_ADDRESS cfg = ''YOUR_ACCOUNT_ADDRESS_HERE''
         \<or> PRIVATE_KEY cfg = ''YOUR_PRIVATE_KEY_HERE''
      then
        ([Print (''=== Medical NFT Contract Deployment ==='' @ [CHR 0x0A]),
          Print (U_274C @ '' Please configure your account address and private key in the script''),
          Print ''You can get these from your Starknet wallet (ArgentX or Braavos)''],
         1)
      else
        (case deploy_then_test cfg dw tw of
           (es, Inr u) \<Rightarrow>
             (Print (''=== Medical NFT Contract Deployment ==='' @ [CHR 0x0A]) # es, 0)
         | (es, Inl e) \<Rightarrow>
             (Print (''=== Medical NFT Contract Deployment ==='' @ [CHR 0x0A]) # es
                @ [Print (U_274C @ '' Deployment failed: '' @ str_exception e),
                   Print ''Make sure you have enough ETH in your account for gas fees''],
              0)))"

section \<open>Observations on a run\<close>

text \<open>The external calls a run started, synchronous or awaited, in order.\<close>

fun requests :: "effect list \<Rightarrow> request list" where
  "requests [] = []"
| "requests (Called q # es) = q # requests es"
| "requests (Submitted q # es) = q # requests es"
| "requests (e # es) = requests es"

fun is_dump :: "request \<Rightarrow> bool" where
  "is_dump (Open_json_dump p obj) = True"
| "is_dump q = False"

fun is_load :: "request \<Rightarrow> bool" where
  "is_load (Open_json_load p) = True"
| "is_load q = False"

fun is_sign_invoke :: "request \<Rightarrow> bool" where
  "is_sign_invoke (Sign_invoke_v1 cs f) = True"
| "is_sign_invoke q = False"

text \<open>The fee ceiling of a request that carries one.\<close>

fun max_fee :: "request \<Rightarrow> int option" where
  "max_fee (Sign_declare_v2 c f) = Some f"
| "max_fee (Sign_invoke_v1 cs f) = Some f"
| "max_fee (Function_invoke_v1 n a f) = Some f"
| "max_fee q = None"

text \<open>
  A run is sequential when every submission is followed at once by the completion of
  the same request: nothing is submitted, called or printed while a request is pending.
\<close>

fun sequential :: "effect list \<Rightarrow> bool" where
  "sequential [] = True"
| "sequential (Submitted q # Completed q' # es) = (q = q' \<and> sequential es)"
| "sequential (Submitted q # es) = False"
| "sequential (Completed q # es) = False"
| "sequential (e # es) = sequential es"

text \<open>
  The network operations in the order the specification lists them, with the arguments
  the script gives them: the artifact as loaded, the hashes as the earlier operations
  returned them. A value of an operation that failed is never part of a request that
  is sent, as \<open>network_requests_prefix\<close> below shows.
\<close>

definition deploy_plan :: "deploy_world \<Rightarrow> request list" where
  "deploy_plan w =
     [Sign_declare_v2 (projr (load_r w)) (10 ^ 16),
      Wait_for_tx (declare_result.transaction_hash (projr (declare_r w))),
      Sign_invoke_v1
        [\<lparr>to_addr = class_hash (projr (declare_r w)), selector = ''constructor'',
          calldata = []\<rparr>]
        (10 ^ 16),
      Wait_for_tx (invoke_result.transaction_hash (projr (deploy_r w))),
      Get_transaction_receipt (invoke_result.transaction_hash (projr (deploy_r w)))]"

definition test_plan :: "test_world \<Rightarrow> request list" where
  "test_plan w =
     [Function_call ''get_total_supply'' [],
      Function_invoke_v1 ''mint_medical_nft''
        [(''patient_id'', 1234567890),
         (''scan_type'', 1),
         (''ipfs_hash'', 0x1234567890abcdef),
         (''doctor'', 0x9876543210fedcba),
         (''upload_timestamp'', 1640995200),
         (''diagnosis_summary'', 0xabcdef1234567890),
         (''notes'', 0xfedcba0987654321)]
        (10 ^ 16),
      Wait_for_tx (invoke_result.transaction_hash (projr (mint_r w))),
      Function_call ''get_total_supply'' [],
      Function_call ''get_token_metadata'' [(''token_id'', 1)]]"

text \<open>The lines of the two explicit checks and of the top-level handler.\<close>

definition banner :: effect where
  "banner = Print (''=== Medical NFT Contract Deployment ==='' @ [CHR 0x0A])"

definition configuration_warning :: "effect list" where
  "configuration_warning =
     [Print (U_274C @ '' Please configure your account address and private key in the script''),
      Print ''You can get these from your Starknet wallet (ArgentX or Braavos)'']"

definition file_not_found_message :: "effect list" where
  "file_not_found_message =
     [Print (U_274C @ '' Contract file not found: medical_scan_nft_compiled.json''),
      Print (''Make sure you've compiled the contract with 'scarb build'' @ [CHR 0x27])]"

definition failure_report :: "py_exception \<Rightarrow> effect list" where
  "failure_report e =
     [Print (U_274C @ '' Deployment failed: '' @ str_exception e),
      Print ''Make sure you have enough ETH in your account for gas fees'']"

definition testing_line :: effect where
  "testing_line = Print ([CHR 0x0A] @ U_1F9EA @ '' Testing deployed contract...'')"

definition network_operations :: "effect list \<Rightarrow> request list" where
  "network_operations es = filter is_network (requests es)"

definition dumps :: "effect list \<Rightarrow> request list" where
  "dumps es = filter is_dump (requests es)"

definition loads :: "effect list \<Rightarrow> request list" where
  "loads es = filter is_load (requests es)"

definition sign_invokes :: "effect list \<Rightarrow> request list" where
  "sign_invokes es = filter is_sign_invoke (requests es)"

section \<open>The effects of a complete run\<close>

text \<open>
  The effects of a run of \<open>deploy_contract\<close> in which nothing fails, written out. The
  effects of every other run are an initial segment of this list (followed by the two
  lines of the file-not-found message when the artifact is missing), as
  \<open>deploy_contract_cases\<close> shows; a value of a call that failed occurs only after the
  point where such a run stops.
\<close>

definition deploy_trace :: "config \<Rightarrow> deploy_world \<Rightarrow> effect list" where
  "deploy_trace cfg w =
     (let key_pair = projr (key_pair_r w); account = projr (account_r w);
          compiled_contract = projr (load_r w); declare_result = projr (declare_r w);
          deploy_result = projr (deploy_r w);
          contract_address = from_address (events (projr (receipt_r w)) ! 0)
      in
      [Print (U_1F3E5 @ '' Starting Medical NFT Contract Deployment...''),
       Called (KeyPair_from_private_key (PRIVATE_KEY cfg)),
       Called (Account_init (ACCOUNT_ADDRESS cfg) (FullNodeClient TESTNET_RPC_URL) key_pair SEPOLIA),
       Print (U_1F4F1 @ '' Using account: '' @ hex (address account)),
       Called (Open_json_load CONTRACT_COMPILED_PATH),
       Print (U_1F4C4 @ '' Contract loaded successfully''),
       Print (U_1F4E4 @ '' Declaring contract...''),
       Submitted (Sign_declare_v2 compiled_contract int_1e16),
       Completed (Sign_declare_v2 compiled_contract int_1e16),
       Submitted (Wait_for_tx (declare_result.transaction_hash declare_result)),
       Completed (Wait_for_tx (declare_result.transaction_hash declare_result)),
       Print (U_2705 @ '' Contract declared with class hash: '' @ hex (class_hash declare_result)),
       Print (U_1F680 @ '' Deploying contract...''),
       Submitted (Sign_invoke_v1
                    [\<lparr>to_addr = class_hash declare_result, selector = ''constructor'',
                      calldata = []\<rparr>] int_1e16),
       Completed (Sign_invoke_v1
                    [\<lparr>to_addr = class_hash declare_result, selector = ''constructor'',
                      calldata = []\<rparr>] int_1e16),
       Submitted (Wait_for_tx (invoke_result.transaction_hash deploy_result)),
       Completed (Wait_for_tx (invoke_result.transaction_hash deploy_result)),
       Submitted (Get_transaction_receipt (invoke_result.transaction_hash deploy_result)),
       Completed (Get_transaction_receipt (invoke_result.transaction_hash deploy_result)),
       Print (U_1F389 @ '' Contract deployed successfully!''),
       Print (U_1F4CD @ '' Contract Address: '' @ hex contract_address),
       Print (U_1F517 @ '' Transaction Hash: ''
                @ hex (invoke_result.transaction_hash deploy_result)),
       Print (U_1F3F7_FE0F @ ''  Class Hash: '' @ hex (class_hash declare_result)),
       Called (Open_json_dump ''deployment_info.json''
                 (deployment_info contract_address declare_result deploy_result)),
       Print (U_1F4BE @ '' Deployment info saved to deployment_info.json'')])"

text \<open>The same for \<open>test_contract\<close>; see \<open>test_contract_cases\<close>.\<close>

definition test_trace :: "config \<Rightarrow> test_world \<Rightarrow> int \<Rightarrow> effect list" where
  "test_trace cfg w contract_address =
     (let key_pair = projr (t_key_pair_r w); account = projr (t_account_r w);
          contract_data = projr (t_load_r w); abi = projr (abi_r w);
          mint_tx = projr (mint_r w)
      in
      [Print ([CHR 0x0A] @ U_1F9EA @ '' Testing deployed contract...''),
       Called (KeyPair_from_private_key (PRIVATE_KEY cfg)),
       Called (Account_init (ACCOUNT_ADDRESS cfg) (FullNodeClient TESTNET_RPC_URL) key_pair SEPOLIA),
       Called (Open_json_load CONTRACT_COMPILED_PATH),
       Called (Getitem contract_data ''abi''),
       Called (Contract_init contract_address abi account),
       Submitted (Function_call ''get_total_supply'' []),
       Completed (Function_call ''get_total_supply'' []),
       Print (U_1F4CA @ '' Total Supply: '' @ py_str (total_supply (projr (supply_r w)))),
       Print (U_1F3E5 @ '' Minting test medical NFT...''),
       Submitted (Function_invoke_v1 ''mint_medical_nft''
                    [(''patient_id'', 1234567890),
                     (''scan_type'', 1),
                     (''ipfs_hash'', 0x1234567890abcdef),
                     (''doctor'', 0x9876543210fedcba),
                     (''upload_timestamp'', 1640995200),
                     (''diagnosis_summary'', 0xabcdef1234567890),
                     (''notes'', 0xfedcba0987654321)]
                    int_1e16),
       Completed (Function_invoke_v1 ''mint_medical_nft''
                    [(''patient_id'', 1234567890),
                     (''scan_type'', 1),
                     (''ipfs_hash'', 0x1234567890abcdef),
                     (''doctor'', 0x9876543210fedcba),
                     (''upload_timestamp'', 1640995200),
                     (''diagnosis_summary'', 0xabcdef1234567890),
                     (''notes'', 0xfedcba0987654321)]
                    int_1e16),
       Submitted (Wait_for_tx (invoke_result.transaction_hash mint_tx)),
       Completed (Wait_for_tx (invoke_result.transaction_hash mint_tx)),
       Print (U_2705 @ '' NFT minted! Transaction: ''
                @ hex (invoke_result.transaction_hash mint_tx)),
       Submitted (Function_call ''get_total_supply'' []),
       Completed (Function_call ''get_total_supply'' []),
       Print (U_1F4CA @ '' Total Supply after minting: ''
                @ py_str (total_supply (projr (supply_again_r w)))),
       Submitted (Function_call ''get_token_metadata'' [(''token_id'', 1)]),
       Completed (Function_call ''get_token_metadata'' [(''token_id'', 1)]),
       Print (U_1F4CB @ '' Token Metadata: '' @ py_str (projr (metadata_r w)))])"

section \<open>Concrete runs\<close>

definition ok_config :: config where
  "ok_config = \<lparr>ACCOUNT_ADDRESS = ''0x1a2b'', PRIVATE_KEY = ''0x3c4d''\<rparr>"

definition ok_deploy_world :: deploy_world where
  "ok_deploy_world =
     \<lparr>key_pair_r = Inr (KeyPair 15437 99),
      account_r = Inr \<lparr>address = 6699\<rparr>,
      load_r = Inr (PyObject ''{...}''),
      declare_r = Inr \<lparr>declare_result.transaction_hash = 17, class_hash = 18\<rparr>,
      wait_declare_r = Inr (),
      deploy_r = Inr \<lparr>invoke_result.transaction_hash = 19\<rparr>,
      wait_deploy_r = Inr (),
      receipt_r = Inr \<lparr>events = [\<lparr>from_address = 4660\<rparr>, \<lparr>from_address = 7\<rparr>]\<rparr>,
      dump_r = Inr ()\<rparr>"

definition ok_test_world :: test_world where
  "ok_test_world =
     \<lparr>t_key_pair_r = Inr (KeyPair 15437 99),
      t_account_r = Inr \<lparr>address = 6699\<rparr>,
      t_load_r = Inr (PyObject ''{...}''),
      abi_r = Inr (PyObject ''[...]''),
      contract_r = Inr \<lparr>contract_functions =
        [''get_total_supply'', ''mint_medical_nft'', ''get_token_metadata'']\<rparr>,
      supply_r = Inr \<lparr>total_supply = PyObject ''0''\<rparr>,
      mint_r = Inr \<lparr>invoke_result.transaction_hash = 20\<rparr>,
      wait_mint_r = Inr (),
      supply_again_r = Inr \<lparr>total_supply = PyObject ''1''\<rparr>,
      metadata_r = Inr (PyObject ''(...)'')\<rparr>"

text \<open>A run whose first event comes from address 0.\<close>

definition zero_address_world :: deploy_world where
  "zero_address_world = ok_deploy_world\<lparr>receipt_r := Inr \<lparr>events = [\<lparr>from_address = 0\<rparr>]\<rparr>\<rparr>"

text \<open>A run whose deploy receipt carries no event.\<close>

definition no_event_world :: deploy_world where
  "no_event_world = ok_deploy_world\<lparr>receipt_r := Inr \<lparr>events = []\<rparr>\<rparr>"

text \<open>A run in which the artifact file does not exist.\<close>

definition missing_file_world :: deploy_world where
  "missing_file_world =
     ok_deploy_world\<lparr>load_r := Inl (FileNotFoundError
       (''[Errno 2] No such file or directory: 'medical_scan_nft_compiled.json'' @ [CHR 0x27]))\<rparr>"

text \<open>
  A run in which the artifact file does not exist and the private key of the
  configuration is not a number, so that \<open>KeyPair.from_private_key\<close> raises.
\<close>

definition bad_key_config :: config where
  "bad_key_config = \<lparr>ACCOUNT_ADDRESS = ''0x1a2b'', PRIVATE_KEY = ''my-private-key''\<rparr>"

definition bad_key_world :: deploy_world where
  "bad_key_world =
     missing_file_world\<lparr>key_pair_r := Inl (OtherError
       (''invalid literal for int() with base 0: 'my-private-key'' @ [CHR 0x27]))\<rparr>"


section \<open>Running the script step by step\<close>

lemma prepend_pair: "prepend es (es', r) = (es @ es', r)"
  by (simp add: prepend_def)

lemma io_bind_split:
  "io_bind (es, r) f = (case r of Inl e \<Rightarrow> (es, Inl e) | Inr x \<Rightarrow> prepend es (f x))"
  by (simp add: io_bind_def prepend_def split: sum.splits prod.splits)

lemma prepend_io_bind: "prepend es (io_bind m f) = io_bind (prepend es m) f"
  by (cases m) (simp add: io_bind_def prepend_def split: sum.splits prod.splits)

lemma try_split:
  "try_except_FileNotFoundError (es, r) h k =
     (case r of Inl (FileNotFoundError t) \<Rightarrow> prepend es h
              | Inl e \<Rightarrow> (es, Inl e)
              | Inr x \<Rightarrow> prepend es (k x))"
  by (simp add: try_except_FileNotFoundError_def prepend_def split: sum.splits prod.splits py_exception.splits)

lemma prepend_try:
  "prepend es (try_except_FileNotFoundError m h k) = try_except_FileNotFoundError (prepend es m) h k"
  by (cases m) (simp add: try_except_FileNotFoundError_def prepend_def split: sum.splits prod.splits py_exception.splits)

lemmas run_simps =
  prepend_pair io_bind_split prepend_io_bind try_split prepend_try
  print_def called_def await_def io_return_def raise_def list_getitem_def functions_getitem_def
  Let_def

lemmas deploy_simps = deploy_contract_def deploy_trace_def run_simps

lemma deploy_contract_cases:
  obtains
    (at_key_pair) e where "key_pair_r w = Inl e"
      and "deploy_contract cfg w = (take 2 (deploy_trace cfg w), Inl e)"
  | (at_account) kp e where "key_pair_r w = Inr kp" and "account_r w = Inl e"
      and "deploy_contract cfg w = (take 3 (deploy_trace cfg w), Inl e)"
  | (file_missing) kp ac t where "key_pair_r w = Inr kp" and "account_r w = Inr ac"
      and "load_r w = Inl (FileNotFoundError t)"
      and "deploy_contract cfg w = (take 5 (deploy_trace cfg w) @ file_not_found_message, Inr None)"
  | (at_load) kp ac e where "key_pair_r w = Inr kp" and "account_r w = Inr ac"
      and "load_r w = Inl e" and "\<forall>t. e \<noteq> FileNotFoundError t"
      and "deploy_contract cfg w = (take 5 (deploy_trace cfg w), Inl e)"
  | (at_declare) kp ac c e where "key_pair_r w = Inr kp" and "account_r w = Inr ac"
      and "load_r w = Inr c" and "declare_r w = Inl e"
      and "deploy_contract cfg w = (take 9 (deploy_trace cfg w), Inl e)"
  | (at_wait_declare) kp ac c d e where "key_pair_r w = Inr kp" and "account_r w = Inr ac"
      and "load_r w = Inr c" and "declare_r w = Inr d" and "wait_declare_r w = Inl e"
      and "deploy_contract cfg w = (take 11 (deploy_trace cfg w), Inl e)"
  | (at_deploy) kp ac c d e where "key_pair_r w = Inr kp" and "account_r w = Inr ac"
      and "load_r w = Inr c" and "declare_r w = Inr d" and "wait_declare_r w = Inr ()"
      and "deploy_r w = Inl e"
      and "deploy_contract cfg w = (take 15 (deploy_trace cfg w), Inl e)"
  | (at_wait_deploy) kp ac c d dep e where "key_pair_r w = Inr kp" and "account_r w = Inr ac"
      and "load_r w = Inr c" and "declare_r w = Inr d" and "wait_declare_r w = Inr ()"
      and "deploy_r w = Inr dep" and "wait_deploy_r w = Inl e"
      and "deploy_contract cfg w = (take 17 (deploy_trace cfg w), Inl e)"
  | (at_receipt) kp ac c d dep e where "key_pair_r w = Inr kp" and "account_r w = Inr ac"
      and "load_r w = Inr c" and "declare_r w = Inr d" and "wait_declare_r w = Inr ()"
      and "deploy_r w = Inr dep" and "wait_deploy_r w = Inr ()" and "receipt_r w = Inl e"
      and "deploy_contract cfg w = (take 19 (deploy_trace cfg w), Inl e)"
  | (no_event) kp ac c d dep r where "key_pair_r w = Inr kp" and "account_r w = Inr ac"
      and "load_r w = Inr c" and "declare_r w = Inr d" and "wait_declare_r w = Inr ()"
      and "deploy_r w = Inr dep" and "wait_deploy_r w = Inr ()" and "receipt_r w = Inr r"
      and "events r = []"
      and "deploy_contract cfg w =
             (take 19 (deploy_trace cfg w), Inl (IndexError ''list index out of range''))"
  | (at_dump) kp ac c d dep r e where "key_pair_r w = Inr kp" and "account_r w = Inr ac"
      and "load_r w = Inr c" and "declare_r w = Inr d" and "wait_declare_r w = Inr ()"
      and "deploy_r w = Inr dep" and "wait_deploy_r w = Inr ()" and "receipt_r w = Inr r"
      and "events r \<noteq> []" and "dump_r w = Inl e"
      and "deploy_contract cfg w = (take 24 (deploy_trace cfg w), Inl e)"
  | (deployed) kp ac c d dep r where "key_pair_r w = Inr kp" and "account_r w = Inr ac"
      and "load_r w = Inr c" and "declare_r w = Inr d" and "wait_declare_r w = Inr ()"
      and "deploy_r w = Inr dep" and "wait_deploy_r w = Inr ()" and "receipt_r w = Inr r"
      and "events r \<noteq> []" and "dump_r w = Inr ()"
      and "deploy_contract cfg w =
             (deploy_trace cfg w, Inr (Some (from_address (events r ! 0))))"
proof (cases "key_pair_r w")
  case (Inl e)
  then show ?thesis by (intro at_key_pair [of e]) (simp_all add: deploy_simps)
next
  case kp: (Inr kp)
  show ?thesis
  proof (cases "account_r w")
    case (Inl e)
    with kp show ?thesis by (intro at_account [of kp e]) (simp_all add: deploy_simps)
  next
    case ac: (Inr ac)
    show ?thesis
    proof (cases "load_r w")
      case (Inl e)
      show ?thesis
      proof (cases "\<exists>t. e = FileNotFoundError t")
        case True
        then obtain t where "e = FileNotFoundError t" by blast
        with kp ac Inl show ?thesis
          by (intro file_missing [of kp ac t])
             (simp_all add: deploy_simps file_not_found_message_def CONTRACT_COMPILED_PATH_def)
      next
        case False
        with kp ac Inl show ?thesis
          by (intro at_load [of kp ac e]) (simp_all add: deploy_simps split: py_exception.splits)
      qed
    next
      case c: (Inr c)
      show ?thesis
      proof (cases "declare_r w")
        case (Inl e)
        with kp ac c show ?thesis by (intro at_declare [of kp ac c e]) (simp_all add: deploy_simps)
      next
        case d: (Inr d)
        show ?thesis
        proof (cases "wait_declare_r w")
          case (Inl e)
          with kp ac c d show ?thesis
            by (intro at_wait_declare [of kp ac c d e]) (simp_all add: deploy_simps)
        next
          case wd: (Inr u)
          show ?thesis
          proof (cases "deploy_r w")
            case (Inl e)
            with kp ac c d wd show ?thesis
              by (intro at_deploy [of kp ac c d e]) (simp_all add: deploy_simps)
          next
            case dep: (Inr dep)
            show ?thesis
            proof (cases "wait_deploy_r w")
              case (Inl e)
              with kp ac c d wd dep show ?thesis
                by (intro at_wait_deploy [of kp ac c d dep e]) (simp_all add: deploy_simps)
            next
              case wp: (Inr u')
              show ?thesis
              proof (cases "receipt_r w")
                case (Inl e)
                with kp ac c d wd dep wp show ?thesis
                  by (intro at_receipt [of kp ac c d dep e]) (simp_all add: deploy_simps)
              next
                case r: (Inr r)
                show ?thesis
                proof (cases "events r")
                  case Nil
                  with kp ac c d wd dep wp r show ?thesis
                    by (intro no_event [of kp ac c d dep r]) (simp_all add: deploy_simps)
                next
                  case (Cons ev evs)
                  show ?thesis
                  proof (cases "dump_r w")
                    case (Inl e)
                    with kp ac c d wd dep wp r Cons show ?thesis
                      by (intro at_dump [of kp ac c d dep r e]) (simp_all add: deploy_simps)
                  next
                    case (Inr u'')
                    with kp ac c d wd dep wp r Cons show ?thesis
                      by (intro deployed [of kp ac c d dep r]) (simp_all add: deploy_simps)
                  qed
                qed
              qed
            qed
          qed
        qed
      qed
    qed
  qed
qed

lemmas test_simps = test_contract_def test_trace_def key_error_def run_simps

lemma test_contract_cases:
  obtains
    (at_key_pair) e where "t_key_pair_r w = Inl e"
      and "test_contract cfg w a = (take 2 (test_trace cfg w a), Inl e)"
  | (at_account) kp e where "t_key_pair_r w = Inr kp" and "t_account_r w = Inl e"
      and "test_contract cfg w a = (take 3 (test_trace cfg w a), Inl e)"
  | (at_load) kp ac e where "t_key_pair_r w = Inr kp" and "t_account_r w = Inr ac"
      and "t_load_r w = Inl e"
      and "test_contract cfg w a = (take 4 (test_trace cfg w a), Inl e)"
  | (at_abi) kp ac c e where "t_key_pair_r w = Inr kp" and "t_account_r w = Inr ac"
      and "t_load_r w = Inr c" and "abi_r w = Inl e"
      and "test_contract cfg w a = (take 5 (test_trace cfg w a), Inl e)"
  | (at_contract) kp ac c abi e where "t_key_pair_r w = Inr kp" and "t_account_r w = Inr ac"
      and "t_load_r w = Inr c" and "abi_r w = Inr abi" and "contract_r w = Inl e"
      and "test_contract cfg w a = (take 6 (test_trace cfg w a), Inl e)"
  | (no_supply_function) kp ac c abi ct where "t_key_pair_r w = Inr kp"
      and "t_account_r w = Inr ac" and "t_load_r w = Inr c" and "abi_r w = Inr abi"
      and "contract_r w = Inr ct" and "''get_total_supply'' \<notin> set (contract_functions ct)"
      and "test_contract cfg w a =
             (take 6 (test_trace cfg w a), Inl (key_error ''get_total_supply''))"
  | (at_supply) kp ac c abi ct e where "t_key_pair_r w = Inr kp"
      and "t_account_r w = Inr ac" and "t_load_r w = Inr c" and "abi_r w = Inr abi"
      and "contract_r w = Inr ct" and "''get_total_supply'' \<in> set (contract_functions ct)"
      and "supply_r w = Inl e"
      and "test_contract cfg w a = (take 8 (test_trace cfg w a), Inl e)"
  | (no_mint_function) kp ac c abi ct s where "t_key_pair_r w = Inr kp"
      and "t_account_r w = Inr ac" and "t_load_r w = Inr c" and "abi_r w = Inr abi"
      and "contract_r w = Inr ct" and "''get_total_supply'' \<in> set (contract_functions ct)"
      and "supply_r w = Inr s" and "''mint_medical_nft'' \<notin> set (contract_functions ct)"
      and "test_contract cfg w a =
             (take 10 (test_trace cfg w a), Inl (key_error ''mint_medical_nft''))"
  | (at_mint) kp ac c abi ct s e where "t_key_pair_r w = Inr kp"
      and "t_account_r w = Inr ac" and "t_load_r w = Inr c" and "abi_r w = Inr abi"
      and "contract_r w = Inr ct" and "''get_total_supply'' \<in> set (contract_functions ct)"
      and "supply_r w = Inr s" and "''mint_medical_nft'' \<in> set (contract_functions ct)"
      and "mint_r w = Inl e"
      and "test_contract cfg w a = (take 12 (test_trace cfg w a), Inl e)"
  | (at_wait_mint) kp ac c abi ct s m e where "t_key_pair_r w = Inr kp"
      and "t_account_r w = Inr ac" and "t_load_r w = Inr c" and "abi_r w = Inr abi"
      and "contract_r w = Inr ct" and "''get_total_supply'' \<in> set (contract_functions ct)"
      and "supply_r w = Inr s" and "''mint_medical_nft'' \<in> set (contract_functions ct)"
      and "mint_r w = Inr m" and "wait_mint_r w = Inl e"
      and "test_contract cfg w a = (take 14 (test_trace cfg w a), Inl e)"
  | (at_supply_again) kp ac c abi ct s m e where "t_key_pair_r w = Inr kp"
      and "t_account_r w = Inr ac" and "t_load_r w = Inr c" and "abi_r w = Inr abi"
      and "contract_r w = Inr ct" and "''get_total_supply'' \<in> set (contract_functions ct)"
      and "supply_r w = Inr s" and "''mint_medical_nft'' \<in> set (contract_functions ct)"
      and "mint_r w = Inr m" and "wait_mint_r w = Inr ()" and "supply_again_r w = Inl e"
      and "test_contract cfg w a = (take 17 (test_trace cfg w a), Inl e)"
  | (no_metadata_function) kp ac c abi ct s m s' where "t_key_pair_r w = Inr kp"
      and "t_account_r w = Inr ac" and "t_load_r w = Inr c" and "abi_r w = Inr abi"
      and "contract_r w = Inr ct" and "''get_total_supply'' \<in> set (contract_functions ct)"
      and "supply_r w = Inr s" and "''mint_medical_nft'' \<in> set (contract_functions ct)"
      and "mint_r w = Inr m" and "wait_mint_r w = Inr ()" and "supply_again_r w = Inr s'"
      and "''get_token_metadata'' \<notin> set (contract_functions ct)"
      and "test_contract cfg w a =
             (take 18 (test_trace cfg w a), Inl (key_error ''get_token_metadata''))"
  | (at_metadata) kp ac c abi ct s m s' e where "t_key_pair_r w = Inr kp"
      and "t_account_r w = Inr ac" and "t_load_r w = Inr c" and "abi_r w = Inr abi"
      and "contract_r w = Inr ct" and "''get_total_supply'' \<in> set (contract_functions ct)"
      and "supply_r w = Inr s" and "''mint_medical_nft'' \<in> set (contract_functions ct)"
      and "mint_r w = Inr m" and "wait_mint_r w = Inr ()" and "supply_again_r w = Inr s'"
      and "''get_token_metadata'' \<in> set (contract_functions ct)" and "metadata_r w = Inl e"
      and "test_contract cfg w a = (take 20 (test_trace cfg w a), Inl e)"
  | (tested) kp ac c abi ct s m s' md where "t_key_pair_r w = Inr kp"
      and "t_account_r w = Inr ac" and "t_load_r w = Inr c" and "abi_r w = Inr abi"
      and "contract_r w = Inr ct" and "''get_total_supply'' \<in> set (contract_functions ct)"
      and "supply_r w = Inr s" and "''mint_medical_nft'' \<in> set (contract_functions ct)"
      and "mint_r w = Inr m" and "wait_mint_r w = Inr ()" and "supply_again_r w = Inr s'"
      and "''get_token_metadata'' \<in> set (contract_functions ct)" and "metadata_r w = Inr md"
      and "test_contract cfg w a = (test_trace cfg w a, Inr ())"
proof (cases "t_key_pair_r w")
  case (Inl e)
  then show ?thesis by (intro at_key_pair [of e]) (simp_all add: test_simps)
next
  case kp: (Inr kp)
  show ?thesis
  proof (cases "t_account_r w")
    case (Inl e)
    with kp show ?thesis by (intro at_account [of kp e]) (simp_all add: test_simps)
  next
    case ac: (Inr ac)
    show ?thesis
    proof (cases "t_load_r w")
      case (Inl e)
      with kp ac show ?thesis by (intro at_load [of kp ac e]) (simp_all add: test_simps)
    next
      case c: (Inr c)
      show ?thesis
      proof (cases "abi_r w")
        case (Inl e)
        with kp ac c show ?thesis by (intro at_abi [of kp ac c e]) (simp_all add: test_simps)
      next
        case abi: (Inr abi)
        show ?thesis
        proof (cases "contract_r w")
          case (Inl e)
          with kp ac c abi show ?thesis
            by (intro at_contract [of kp ac c abi e]) (simp_all add: test_simps)
        next
          case ct: (Inr ct)
          note reached = kp ac c abi ct
          show ?thesis
          proof (cases "''get_total_supply'' \<in> set (contract_functions ct)")
            case False
            with reached show ?thesis
              by (intro no_supply_function [of kp ac c abi ct]) (simp_all add: test_simps)
          next
            case f1: True
            show ?thesis
            proof (cases "supply_r w")
              case (Inl e)
              with reached f1 show ?thesis
                by (intro at_supply [of kp ac c abi ct e]) (simp_all add: test_simps)
            next
              case s: (Inr s)
              show ?thesis
              proof (cases "''mint_medical_nft'' \<in> set (contract_functions ct)")
                case False
                with reached f1 s show ?thesis
                  by (intro no_mint_function [of kp ac c abi ct s]) (simp_all add: test_simps)
              next
                case f2: True
                show ?thesis
                proof (cases "mint_r w")
                  case (Inl e)
                  with reached f1 s f2 show ?thesis
                    by (intro at_mint [of kp ac c abi ct s e]) (simp_all add: test_simps)
                next
                  case m: (Inr m)
                  show ?thesis
                  proof (cases "wait_mint_r w")
                    case (Inl e)
                    with reached f1 s f2 m show ?thesis
                      by (intro at_wait_mint [of kp ac c abi ct s m e])
                         (simp_all add: test_simps)
                  next
                    case wm: (Inr u)
                    show ?thesis
                    proof (cases "supply_again_r w")
                      case (Inl e)
                      with reached f1 s f2 m wm show ?thesis
                        by (intro at_supply_again [of kp ac c abi ct s m e])
                           (simp_all add: test_simps)
                    next
                      case s': (Inr s')
                      show ?thesis
                      proof (cases "''get_token_metadata'' \<in> set (contract_functions ct)")
                        case False
                        with reached f1 s f2 m wm s' show ?thesis
                          by (intro no_metadata_function [of kp ac c abi ct s m s'])
                             (simp_all add: test_simps)
                      next
                        case f3: True
                        show ?thesis
                        proof (cases "metadata_r w")
                          case (Inl e)
                          with reached f1 s f2 m wm s' f3 show ?thesis
                            by (intro at_metadata [of kp ac c abi ct s m s' e])
                               (simp_all add: test_simps)
                        next
                          case (Inr md)
                          with reached f1 s f2 m wm s' f3 show ?thesis
                            by (intro tested [of kp ac c abi ct s m s' md])
                               (simp_all add: test_simps)
                        qed
                      qed
                    qed
                  qed
                qed
              qed
            qed
          qed
        qed
      qed
    qed
  qed
qed

subsection \<open>Lists of effects\<close>

lemma requests_append: "requests (xs @ ys) = requests xs @ requests ys"
  by (induction xs rule: requests.induct) simp_all

lemma network_operations_append:
  "network_operations (xs @ ys) = network_operations xs @ network_operations ys"
  by (simp add: network_operations_def requests_append)

lemma dumps_append: "dumps (xs @ ys) = dumps xs @ dumps ys"
  by (simp add: dumps_def requests_append)

lemma loads_append: "loads (xs @ ys) = loads xs @ loads ys"
  by (simp add: loads_def requests_append)

lemma sequential_append: "sequential xs \<Longrightarrow> sequential (xs @ ys) = sequential ys"
  by (induction xs rule: sequential.induct) simp_all

lemma requests_Print: "requests (Print s # es) = requests es"
  by simp

lemmas observe_simps =
  network_operations_def dumps_def loads_def banner_def configuration_warning_def
  file_not_found_message_def failure_report_def testing_line_def

subsection \<open>The script body\<close>

lemma io_bind_eq:
  "io_bind m f =
     (case snd m of Inl e \<Rightarrow> (fst m, Inl e)
                  | Inr x \<Rightarrow> (fst m @ fst (f x), snd (f x)))"
  by (cases m) (simp add: io_bind_def split: sum.splits prod.splits)

lemma deploy_then_test_cases:
  obtains
    (raised) e where "snd (deploy_contract cfg dw) = Inl e"
      and "deploy_then_test cfg dw tw = (fst (deploy_contract cfg dw), Inl e)"
  | (falsy) v where "snd (deploy_contract cfg dw) = Inr v" and "\<not> truthy v"
      and "deploy_then_test cfg dw tw = (fst (deploy_contract cfg dw), Inr ())"
  | (truthy) a where "snd (deploy_contract cfg dw) = Inr (Some a)" and "a \<noteq> 0"
      and "deploy_then_test cfg dw tw =
             (fst (deploy_contract cfg dw) @ fst (test_contract cfg tw a),
              snd (test_contract cfg tw a))"
proof (cases "snd (deploy_contract cfg dw)")
  case (Inl e)
  then show ?thesis
    by (intro raised [of e]) (simp_all add: deploy_then_test_def io_bind_eq)
next
  case (Inr v)
  show ?thesis
  proof (cases "truthy v")
    case False
    with Inr show ?thesis
      by (intro falsy [of v]) (simp_all add: deploy_then_test_def io_bind_eq io_return_def)
  next
    case True
    then obtain a where "v = Some a" and "a \<noteq> 0"
      by (cases v) simp_all
    with Inr show ?thesis
      by (intro truthy [of a]) (simp_all add: deploy_then_test_def io_bind_eq)
  qed
qed

lemma main_cases:
  obtains
    (unconfigured)
      "ACCOUNT_ADDRESS cfg = ''YOUR_ACCOUNT_ADDRESS_HERE''
         \<or> PRIVATE_KEY cfg = ''YOUR_PRIVATE_KEY_HERE''"
      and "main cfg dw tw = (banner # configuration_warning, 1)"
  | (deploy_failed) e where "ACCOUNT_ADDRESS cfg \<noteq> ''YOUR_ACCOUNT_ADDRESS_HERE''"
      and "PRIVATE_KEY cfg \<noteq> ''YOUR_PRIVATE_KEY_HERE''"
      and "snd (deploy_contract cfg dw) = Inl e"
      and "main cfg dw tw = (banner # fst (deploy_contract cfg dw) @ failure_report e, 0)"
  | (skipped) v where "ACCOUNT_ADDRESS cfg \<noteq> ''YOUR_ACCOUNT_ADDRESS_HERE''"
      and "PRIVATE_KEY cfg \<noteq> ''YOUR_PRIVATE_KEY_HERE''"
      and "snd (deploy_contract cfg dw) = Inr v" and "\<not> truthy v"
      and "main cfg dw tw = (banner # fst (deploy_contract cfg dw), 0)"
  | (test_failed) a e where "ACCOUNT_ADDRESS cfg \<noteq> ''YOUR_ACCOUNT_ADDRESS_HERE''"
      and "PRIVATE_KEY cfg \<noteq> ''YOUR_PRIVATE_KEY_HERE''"
      and "snd (deploy_contract cfg dw) = Inr (Some a)" and "a \<noteq> 0"
      and "snd (test_contract cfg tw a) = Inl e"
      and "main cfg dw tw =
             (banner # fst (deploy_contract cfg dw) @ fst (test_contract cfg tw a)
                @ failure_report e, 0)"
  | (completed) a where "ACCOUNT_ADDRESS cfg \<noteq> ''YOUR_ACCOUNT_ADDRESS_HERE''"
      and "PRIVATE_KEY cfg \<noteq> ''YOUR_PRIVATE_KEY_HERE''"
      and "snd (deploy_contract cfg dw) = Inr (Some a)" and "a \<noteq> 0"
      and "snd (test_contract cfg tw a) = Inr ()"
      and "main cfg dw tw =
             (banner # fst (deploy_contract cfg dw) @ fst (test_contract cfg tw a), 0)"
proof (cases "ACCOUNT_ADDRESS cfg = ''YOUR_ACCOUNT_ADDRESS_HERE''
                \<or> PRIVATE_KEY cfg = ''YOUR_PRIVATE_KEY_HERE''")
  case True
  then show ?thesis
    by (intro unconfigured)
       (simp_all only: main_def banner_def configuration_warning_def if_True append_Cons append_Nil)
next
  case configured: False
  show ?thesis
  proof (cases rule: deploy_then_test_cases [of cfg dw tw])
    case (raised e)
    with configured show ?thesis
      by (intro deploy_failed [of e])
         (simp_all add: main_def banner_def failure_report_def)
  next
    case (falsy v)
    with configured show ?thesis
      by (intro skipped [of v]) (simp_all add: main_def banner_def)
  next
    case (truthy a)
    show ?thesis
    proof (cases "snd (test_contract cfg tw a)")
      case (Inl e)
      with configured truthy show ?thesis
        by (intro test_failed [of a e]) (simp_all add: main_def banner_def failure_report_def)
    next
      case (Inr u)
      with configured truthy show ?thesis
        by (intro completed [of a]) (simp_all add: main_def banner_def)
    qed
  qed
qed

subsection \<open>Facts about every run of deploy\_contract\<close>

lemmas trace_simps = deploy_trace_def test_trace_def observe_simps Let_def

lemmas emoji_defs =
  U_1F3E5_def U_1F4F1_def U_274C_def U_1F4C4_def U_1F4E4_def U_2705_def U_1F680_def
  U_1F389_def U_1F4CD_def U_1F517_def U_1F3F7_FE0F_def U_1F4BE_def U_1F9EA_def U_1F4CA_def
  U_1F4CB_def

lemma deploy_sequential: "sequential (fst (deploy_contract cfg w))"
  by (cases rule: deploy_contract_cases [where w = w and cfg = cfg])
     (simp_all add: trace_simps)

lemma deploy_network_prefix:
  "prefix (network_operations (fst (deploy_contract cfg w))) (deploy_plan w)"
  by (cases rule: deploy_contract_cases [where w = w and cfg = cfg])
     (simp_all add: trace_simps deploy_plan_def int_1e16_def)

lemma deploy_network_complete:
  "snd (deploy_contract cfg w) = Inr (Some a) \<Longrightarrow>
     network_operations (fst (deploy_contract cfg w)) = deploy_plan w"
  by (cases rule: deploy_contract_cases [where w = w and cfg = cfg])
     (simp_all add: trace_simps deploy_plan_def int_1e16_def)

lemma deploy_contract_Some_iff:
  "snd (deploy_contract cfg w) = Inr (Some a) \<longleftrightarrow>
     (\<exists>kp ac c d dep r.
        key_pair_r w = Inr kp \<and> account_r w = Inr ac \<and> load_r w = Inr c \<and>
        declare_r w = Inr d \<and> wait_declare_r w = Inr () \<and> deploy_r w = Inr dep \<and>
        wait_deploy_r w = Inr () \<and> receipt_r w = Inr r \<and> events r \<noteq> [] \<and>
        dump_r w = Inr () \<and> a = from_address (events r ! 0))"
  by (cases rule: deploy_contract_cases [where w = w and cfg = cfg]) auto

lemma deploy_contract_None_iff:
  "snd (deploy_contract cfg w) = Inr None \<longleftrightarrow>
     (\<exists>kp ac t. key_pair_r w = Inr kp \<and> account_r w = Inr ac
        \<and> load_r w = Inl (FileNotFoundError t))"
  by (cases rule: deploy_contract_cases [where w = w and cfg = cfg]) auto

lemma deploy_not_testing: "testing_line \<notin> set (fst (deploy_contract cfg w))"
  by (cases rule: deploy_contract_cases [where w = w and cfg = cfg])
     (simp_all add: trace_simps emoji_defs)

lemma deploy_loads:
  "set (loads (fst (deploy_contract cfg w))) \<subseteq> {Open_json_load ''medical_scan_nft_compiled.json''}"
  by (cases rule: deploy_contract_cases [where w = w and cfg = cfg])
     (simp_all add: trace_simps CONTRACT_COMPILED_PATH_def)

subsection \<open>Facts about every run of test\_contract\<close>

lemma test_sequential: "sequential (fst (test_contract cfg w a))"
  by (cases rule: test_contract_cases [where w = w and cfg = cfg and a = a])
     (simp_all add: trace_simps)

lemma test_network_prefix:
  "prefix (network_operations (fst (test_contract cfg w a))) (test_plan w)"
  by (cases rule: test_contract_cases [where w = w and cfg = cfg and a = a])
     (simp_all add: trace_simps test_plan_def int_1e16_def)

lemma test_network_complete:
  "snd (test_contract cfg w a) = Inr u \<Longrightarrow>
     network_operations (fst (test_contract cfg w a)) = test_plan w"
  by (cases rule: test_contract_cases [where w = w and cfg = cfg and a = a])
     (simp_all add: trace_simps test_plan_def int_1e16_def)

lemma test_dumps: "dumps (fst (test_contract cfg w a)) = []"
  by (cases rule: test_contract_cases [where w = w and cfg = cfg and a = a])
     (simp_all add: trace_simps)

lemma test_loads:
  "set (loads (fst (test_contract cfg w a))) \<subseteq> {Open_json_load ''medical_scan_nft_compiled.json''}"
  by (cases rule: test_contract_cases [where w = w and cfg = cfg and a = a])
     (simp_all add: trace_simps CONTRACT_COMPILED_PATH_def)

lemma test_testing: "testing_line \<in> set (fst (test_contract cfg w a))"
  by (cases rule: test_contract_cases [where w = w and cfg = cfg and a = a])
     (simp_all add: trace_simps)

lemma test_contract_returns_iff:
  "snd (test_contract cfg w a) = Inr u \<longleftrightarrow>
     (\<exists>kp ac c abi ct s m s' md.
        t_key_pair_r w = Inr kp \<and> t_account_r w = Inr ac \<and> t_load_r w = Inr c \<and>
        abi_r w = Inr abi \<and> contract_r w = Inr ct \<and> supply_r w = Inr s \<and>
        mint_r w = Inr m \<and> wait_mint_r w = Inr () \<and> supply_again_r w = Inr s' \<and>
        metadata_r w = Inr md \<and>
        {''get_total_supply'', ''mint_medical_nft'', ''get_token_metadata''}
          \<subseteq> set (contract_functions ct))"
  by (cases rule: test_contract_cases [where w = w and cfg = cfg and a = a]) auto

subsection \<open>Facts about every run of the script\<close>

lemma main_sequential: "sequential (fst (main cfg dw tw))"
  by (cases rule: main_cases [where cfg = cfg and dw = dw and tw = tw])
     (simp_all add: observe_simps sequential_append deploy_sequential test_sequential)

lemma main_network_prefix:
  "prefix (network_operations (fst (main cfg dw tw))) (deploy_plan dw @ test_plan tw)"
proof (cases rule: main_cases [where cfg = cfg and dw = dw and tw = tw])
  case unconfigured
  then show ?thesis by (simp add: observe_simps)
next
  case (deploy_failed e)
  have "network_operations (fst (main cfg dw tw)) = network_operations (fst (deploy_contract cfg dw))"
    using deploy_failed by (simp add: observe_simps requests_append)
  then show ?thesis using deploy_network_prefix [of cfg dw] by simp
next
  case (skipped v)
  have "network_operations (fst (main cfg dw tw)) = network_operations (fst (deploy_contract cfg dw))"
    using skipped by (simp add: observe_simps)
  then show ?thesis using deploy_network_prefix [of cfg dw] by simp
next
  case (test_failed a e)
  have "network_operations (fst (main cfg dw tw))
          = deploy_plan dw @ network_operations (fst (test_contract cfg tw a))"
    using test_failed deploy_network_complete [of cfg dw a]
    by (simp add: observe_simps requests_append)
  then show ?thesis using test_network_prefix [of cfg tw a] by simp
next
  case (completed a)
  have "network_operations (fst (main cfg dw tw))
          = deploy_plan dw @ network_operations (fst (test_contract cfg tw a))"
    using completed deploy_network_complete [of cfg dw a]
    by (simp add: observe_simps requests_append)
  then show ?thesis using test_network_prefix [of cfg tw a] by simp
qed

section \<open>The claims\<close>

text \<open>
  C4. Whenever the account address or the private key still has its placeholder value,
  the script prints the banner and the configuration warning and exits with status 1;
  it makes no external call at all, so no deployment step is performed.
\<close>

theorem placeholder_configuration_exits:
  assumes "ACCOUNT_ADDRESS cfg = ''YOUR_ACCOUNT_ADDRESS_HERE''
             \<or> PRIVATE_KEY cfg = ''YOUR_PRIVATE_KEY_HERE''"
  shows "main cfg dw tw = (banner # configuration_warning, 1)
           \<and> requests (fst (main cfg dw tw)) = []"
  using assms
  by (cases rule: main_cases [where cfg = cfg and dw = dw and tw = tw])
     (simp_all add: observe_simps)

theorem placeholder_configuration_exits_witness:
  "PRIVATE_KEY (ok_config\<lparr>PRIVATE_KEY := ''YOUR_PRIVATE_KEY_HERE''\<rparr>) = ''YOUR_PRIVATE_KEY_HERE''
     \<and> snd (main (ok_config\<lparr>PRIVATE_KEY := ''YOUR_PRIVATE_KEY_HERE''\<rparr>) ok_deploy_world ok_test_world) = 1
     \<and> ACCOUNT_ADDRESS source_config = ''YOUR_ACCOUNT_ADDRESS_HERE''
     \<and> main source_config ok_deploy_world ok_test_world = (banner # configuration_warning, 1)"
  using placeholder_configuration_exits
          [of "ok_config\<lparr>PRIVATE_KEY := ''YOUR_PRIVATE_KEY_HERE''\<rparr>" ok_deploy_world ok_test_world]
        placeholder_configuration_exits [of source_config ok_deploy_world ok_test_world]
  by (simp add: source_config_def ok_config_def)

lemma deploy_load_failed:
  "load_r w = Inl e \<Longrightarrow>
     network_operations (fst (deploy_contract cfg w)) = [] \<and> dumps (fst (deploy_contract cfg w)) = []"
  by (cases rule: deploy_contract_cases [where w = w and cfg = cfg])
     (simp_all add: trace_simps)

lemma deploy_file_missing:
  "load_r w = Inl (FileNotFoundError t) \<Longrightarrow>
   Called (Open_json_load CONTRACT_COMPILED_PATH) \<in> set (fst (deploy_contract cfg w)) \<Longrightarrow>
     snd (deploy_contract cfg w) = Inr None
       \<and> suffix file_not_found_message (fst (deploy_contract cfg w))"
  by (cases rule: deploy_contract_cases [where w = w and cfg = cfg])
     (simp_all add: trace_simps suffix_def)

lemma requests_failure_report: "requests (failure_report e) = []"
  by (simp add: failure_report_def)

lemma main_effects_cases:
  obtains
    (nothing_run) "fst (main cfg dw tw) = banner # configuration_warning"
  | (deploy_only) es where
      "fst (main cfg dw tw) = banner # fst (deploy_contract cfg dw) @ es"
      and "requests es = []" and "\<forall>a. a \<noteq> 0 \<longrightarrow> snd (deploy_contract cfg dw) \<noteq> Inr (Some a)"
  | (deploy_and_test) a es where
      "fst (main cfg dw tw) =
         banner # fst (deploy_contract cfg dw) @ fst (test_contract cfg tw a) @ es"
      and "requests es = []" and "snd (deploy_contract cfg dw) = Inr (Some a)" and "a \<noteq> 0"
proof (cases rule: main_cases [where cfg = cfg and dw = dw and tw = tw])
  case unconfigured
  then show ?thesis by (intro nothing_run) simp
next
  case (deploy_failed e)
  then show ?thesis
    by (intro deploy_only [of "failure_report e"]) (simp_all add: requests_failure_report)
next
  case (skipped v)
  then show ?thesis by (intro deploy_only [of "[]"]) auto
next
  case (test_failed a e)
  then show ?thesis
    by (intro deploy_and_test [of a "failure_report e"]) (simp_all add: requests_failure_report)
next
  case (completed a)
  then show ?thesis by (intro deploy_and_test [of a "[]"]) simp_all
qed

text \<open>
  C3, as amended. In every run in which the artifact file does not exist, no network
  operation is performed and no summary file is written. When \<open>deploy_contract\<close> gets as
  far as opening the artifact (the key pair and the account were built without an
  exception), it prints the two lines of the file-not-found message last and returns
  \<open>None\<close>.
\<close>

theorem missing_artifact_returns_early:
  assumes "load_r w = Inl (FileNotFoundError t)"
  shows "network_operations (fst (main cfg w tw)) = []
           \<and> dumps (fst (main cfg w tw)) = []
           \<and> (Called (Open_json_load CONTRACT_COMPILED_PATH) \<in> set (fst (deploy_contract cfg w))
                \<longrightarrow> snd (deploy_contract cfg w) = Inr None
                    \<and> suffix file_not_found_message (fst (deploy_contract cfg w)))"
proof -
  have none: "\<forall>a. snd (deploy_contract cfg w) \<noteq> Inr (Some a)"
    using assms by (simp add: deploy_contract_Some_iff)
  have "network_operations (fst (main cfg w tw)) = [] \<and> dumps (fst (main cfg w tw)) = []"
  proof (cases rule: main_effects_cases [where cfg = cfg and dw = w and tw = tw])
    case nothing_run
    then show ?thesis by (simp add: observe_simps)
  next
    case (deploy_only es)
    then show ?thesis
      using deploy_load_failed [OF assms, of cfg]
      by (simp add: network_operations_def dumps_def banner_def requests_append)
  next
    case (deploy_and_test a es)
    with none show ?thesis by simp
  qed
  then show ?thesis using deploy_file_missing [OF assms, of cfg] by simp
qed

theorem missing_artifact_returns_early_witness:
  "load_r missing_file_world
     = Inl (FileNotFoundError
         (''[Errno 2] No such file or directory: 'medical_scan_nft_compiled.json'' @ [CHR 0x27]))
   \<and> Called (Open_json_load CONTRACT_COMPILED_PATH)
        \<in> set (fst (deploy_contract ok_config missing_file_world))
   \<and> snd (deploy_contract ok_config missing_file_world) = Inr None
   \<and> suffix file_not_found_message (fst (deploy_contract ok_config missing_file_world))
   \<and> network_operations (fst (main ok_config missing_file_world ok_test_world)) = []"
proof -
  have l: "load_r missing_file_world
     = Inl (FileNotFoundError
         (''[Errno 2] No such file or directory: 'medical_scan_nft_compiled.json'' @ [CHR 0x27]))"
    by (simp add: missing_file_world_def ok_deploy_world_def)
  have r: "Called (Open_json_load CONTRACT_COMPILED_PATH)
        \<in> set (fst (deploy_contract ok_config missing_file_world))"
    by (simp add: deploy_simps missing_file_world_def ok_deploy_world_def)
  show ?thesis
    using missing_artifact_returns_early [OF l, of ok_config ok_test_world] l r by simp
qed

text \<open>
  C3 as stated fails: in this run the artifact file does not exist, and
  \<open>deploy_contract\<close> neither prints the file-not-found message nor returns, because
  building the key pair raised before the file was looked for.
\<close>

theorem missing_artifact_counterexample:
  "load_r bad_key_world
     = Inl (FileNotFoundError
         (''[Errno 2] No such file or directory: 'medical_scan_nft_compiled.json'' @ [CHR 0x27]))
   \<and> snd (deploy_contract bad_key_config bad_key_world)
       = Inl (OtherError
           (''invalid literal for int() with base 0: 'my-private-key'' @ [CHR 0x27]))
   \<and> fst (deploy_contract bad_key_config bad_key_world)
       = [Print (U_1F3E5 @ '' Starting Medical NFT Contract Deployment...''),
          Called (KeyPair_from_private_key ''my-private-key'')]"
  by (simp add: deploy_simps bad_key_world_def bad_key_config_def missing_file_world_def
        ok_deploy_world_def)

lemma testing_line_distinct:
  "testing_line \<noteq> banner" "testing_line \<notin> set configuration_warning"
  "testing_line \<notin> set (failure_report e)"
  by (simp_all add: observe_simps emoji_defs)

text \<open>
  C10. With the configuration set, \<open>test_contract\<close> is run exactly when \<open>deploy_contract\<close>
  returns a truthy value, and then with the returned address, after the effects of the
  deployment. When the returned value is falsy (\<open>None\<close> after a missing artifact, or the
  address 0) the run ends after the deployment with status 0 and no further line.
\<close>

theorem smoke_test_iff_truthy:
  assumes "ACCOUNT_ADDRESS cfg \<noteq> ''YOUR_ACCOUNT_ADDRESS_HERE''"
    and "PRIVATE_KEY cfg \<noteq> ''YOUR_PRIVATE_KEY_HERE''"
  shows "(testing_line \<in> set (fst (main cfg dw tw))
            \<longleftrightarrow> (\<exists>v. snd (deploy_contract cfg dw) = Inr v \<and> truthy v))
       \<and> (\<forall>a. snd (deploy_contract cfg dw) = Inr (Some a) \<and> a \<noteq> 0 \<longrightarrow>
             deploy_then_test cfg dw tw
               = (fst (deploy_contract cfg dw) @ fst (test_contract cfg tw a),
                  snd (test_contract cfg tw a)))
       \<and> (\<forall>v. snd (deploy_contract cfg dw) = Inr v \<and> \<not> truthy v \<longrightarrow>
             main cfg dw tw = (banner # fst (deploy_contract cfg dw), 0))
       \<and> (\<forall>kp ac t. key_pair_r dw = Inr kp \<and> account_r dw = Inr ac
             \<and> load_r dw = Inl (FileNotFoundError t) \<longrightarrow>
             snd (deploy_contract cfg dw) = Inr None)"
proof -
  have run: "testing_line \<in> set (fst (main cfg dw tw))
               \<longleftrightarrow> (\<exists>v. snd (deploy_contract cfg dw) = Inr v \<and> truthy v)"
    using assms
    by (cases rule: main_cases [where cfg = cfg and dw = dw and tw = tw])
       (auto simp add: testing_line_distinct deploy_not_testing test_testing)
  have with_address: "\<forall>a. snd (deploy_contract cfg dw) = Inr (Some a) \<and> a \<noteq> 0 \<longrightarrow>
      deploy_then_test cfg dw tw
        = (fst (deploy_contract cfg dw) @ fst (test_contract cfg tw a),
           snd (test_contract cfg tw a))"
    by (cases rule: deploy_then_test_cases [where cfg = cfg and dw = dw and tw = tw]) auto
  have skip: "\<forall>v. snd (deploy_contract cfg dw) = Inr v \<and> \<not> truthy v \<longrightarrow>
      main cfg dw tw = (banner # fst (deploy_contract cfg dw), 0)"
    using assms
    by (cases rule: main_cases [where cfg = cfg and dw = dw and tw = tw]) auto
  have missing: "\<forall>kp ac t. key_pair_r dw = Inr kp \<and> account_r dw = Inr ac
      \<and> load_r dw = Inl (FileNotFoundError t) \<longrightarrow> snd (deploy_contract cfg dw) = Inr None"
    by (simp add: deploy_contract_None_iff)
  from run with_address skip missing show ?thesis by blast
qed

lemma ok_config_set:
  "ACCOUNT_ADDRESS ok_config \<noteq> ''YOUR_ACCOUNT_ADDRESS_HERE''"
  "PRIVATE_KEY ok_config \<noteq> ''YOUR_PRIVATE_KEY_HERE''"
  by (simp_all add: ok_config_def)

lemma ok_deploy_returns: "snd (deploy_contract ok_config ok_deploy_world) = Inr (Some 4660)"
  by (simp add: deploy_contract_Some_iff ok_deploy_world_def)

lemma zero_address_returns: "snd (deploy_contract ok_config zero_address_world) = Inr (Some 0)"
  by (simp add: deploy_contract_Some_iff zero_address_world_def ok_deploy_world_def)

lemma missing_file_returns: "snd (deploy_contract ok_config missing_file_world) = Inr None"
  by (simp add: deploy_contract_None_iff missing_file_world_def ok_deploy_world_def)

theorem smoke_test_iff_truthy_witness:
  "testing_line \<in> set (fst (main ok_config ok_deploy_world ok_test_world))
   \<and> testing_line \<notin> set (fst (main ok_config zero_address_world ok_test_world))
   \<and> main ok_config zero_address_world ok_test_world
       = (banner # fst (deploy_contract ok_config zero_address_world), 0)
   \<and> testing_line \<notin> set (fst (main ok_config missing_file_world ok_test_world))
   \<and> main ok_config missing_file_world ok_test_world
       = (banner # fst (deploy_contract ok_config missing_file_world), 0)"
proof -
  note ok = smoke_test_iff_truthy [OF ok_config_set, of ok_deploy_world ok_test_world]
  note zero = smoke_test_iff_truthy [OF ok_config_set, of zero_address_world ok_test_world]
  note missing = smoke_test_iff_truthy [OF ok_config_set, of missing_file_world ok_test_world]
  have ok_truthy: "\<exists>v. snd (deploy_contract ok_config ok_deploy_world) = Inr v \<and> truthy v"
    using ok_deploy_returns by simp
  have zero_falsy: "snd (deploy_contract ok_config zero_address_world) = Inr (Some 0)
                      \<and> \<not> truthy (Some 0)"
    using zero_address_returns by simp
  have none_falsy: "snd (deploy_contract ok_config missing_file_world) = Inr None
                      \<and> \<not> truthy None"
    using missing_file_returns by simp
  have zero_not: "\<not> (\<exists>v. snd (deploy_contract ok_config zero_address_world) = Inr v \<and> truthy v)"
    using zero_address_returns by simp
  have none_not: "\<not> (\<exists>v. snd (deploy_contract ok_config missing_file_world) = Inr v \<and> truthy v)"
    using missing_file_returns by simp
  have 1: "testing_line \<in> set (fst (main ok_config ok_deploy_world ok_test_world))"
    using ok ok_truthy by blast
  have 2: "testing_line \<notin> set (fst (main ok_config zero_address_world ok_test_world))"
    using zero zero_not by blast
  have 3: "main ok_config zero_address_world ok_test_world
             = (banner # fst (deploy_contract ok_config zero_address_world), 0)"
    using zero zero_falsy by blast
  have 4: "testing_line \<notin> set (fst (main ok_config missing_file_world ok_test_world))"
    using missing none_not by blast
  have 5: "main ok_config missing_file_world ok_test_world
             = (banner # fst (deploy_contract ok_config missing_file_world), 0)"
    using missing none_falsy by blast
  from 1 2 3 4 5 show ?thesis by blast
qed




text \<open>
  C9. The address is read at index 0 of the receipt's events with no check.
  \<open>deploy_contract\<close> returns only after the early return at a missing artifact, where no
  receipt is asked for, or when the receipt carries at least one event. When the
  receipt was fetched and carries no event, the access raises
  \<open>IndexError\<close>, nothing is written, and with the configuration set the top-level
  handler reports that error.
\<close>

theorem empty_event_list_raises:
  "(\<forall>v. snd (deploy_contract cfg w) = Inr v \<longrightarrow>
        (v = None \<and> (\<forall>h. Submitted (Get_transaction_receipt h) \<notin> set (fst (deploy_contract cfg w))))
        \<or> (\<exists>r. receipt_r w = Inr r \<and> events r \<noteq> []))
   \<and> (\<forall>h r. Completed (Get_transaction_receipt h) \<in> set (fst (deploy_contract cfg w))
          \<and> receipt_r w = Inr r \<and> events r = [] \<longrightarrow>
        snd (deploy_contract cfg w) = Inl (IndexError ''list index out of range'')
        \<and> dumps (fst (deploy_contract cfg w)) = []
        \<and> (ACCOUNT_ADDRESS cfg \<noteq> ''YOUR_ACCOUNT_ADDRESS_HERE''
             \<and> PRIVATE_KEY cfg \<noteq> ''YOUR_PRIVATE_KEY_HERE'' \<longrightarrow>
           main cfg w tw
             = (banner # fst (deploy_contract cfg w)
                  @ failure_report (IndexError ''list index out of range''), 0)))"
proof -
  have returns: "\<forall>v. snd (deploy_contract cfg w) = Inr v \<longrightarrow>
        (v = None \<and> (\<forall>h. Submitted (Get_transaction_receipt h) \<notin> set (fst (deploy_contract cfg w))))
        \<or> (\<exists>r. receipt_r w = Inr r \<and> events r \<noteq> [])"
    by (cases rule: deploy_contract_cases [where w = w and cfg = cfg])
       (simp_all add: trace_simps)
  have raises: "snd (deploy_contract cfg w) = Inl (IndexError ''list index out of range'')
        \<and> dumps (fst (deploy_contract cfg w)) = []"
    if "Completed (Get_transaction_receipt h) \<in> set (fst (deploy_contract cfg w))"
      and "receipt_r w = Inr r" and "events r = []" for h r
    using that
    by (cases rule: deploy_contract_cases [where w = w and cfg = cfg])
       (simp_all add: trace_simps)
  have reported: "main cfg w tw
        = (banner # fst (deploy_contract cfg w)
             @ failure_report (IndexError ''list index out of range''), 0)"
    if "snd (deploy_contract cfg w) = Inl (IndexError ''list index out of range'')"
      and "ACCOUNT_ADDRESS cfg \<noteq> ''YOUR_ACCOUNT_ADDRESS_HERE''"
      and "PRIVATE_KEY cfg \<noteq> ''YOUR_PRIVATE_KEY_HERE''"
    using that
    by (cases rule: main_cases [where cfg = cfg and dw = w and tw = tw]) auto
  from returns raises reported show ?thesis by blast
qed

theorem empty_event_list_raises_witness:
  "Completed (Get_transaction_receipt 19) \<in> set (fst (deploy_contract ok_config no_event_world))
   \<and> receipt_r no_event_world = Inr \<lparr>events = []\<rparr>
   \<and> snd (deploy_contract ok_config no_event_world) = Inl (IndexError ''list index out of range'')
   \<and> main ok_config no_event_world ok_test_world
       = (banner # fst (deploy_contract ok_config no_event_world)
            @ [Print (U_274C @ '' Deployment failed: list index out of range''),
               Print ''Make sure you have enough ETH in your account for gas fees''], 0)"
proof -
  have fetched: "Completed (Get_transaction_receipt 19)
                   \<in> set (fst (deploy_contract ok_config no_event_world))"
    by (simp add: deploy_simps no_event_world_def ok_deploy_world_def)
  have empty: "receipt_r no_event_world = Inr \<lparr>events = []\<rparr> \<and> events \<lparr>events = []\<rparr> = []"
    by (simp add: no_event_world_def ok_deploy_world_def)
  from empty_event_list_raises [of ok_config no_event_world ok_test_world] fetched empty ok_config_set
  have "snd (deploy_contract ok_config no_event_world) = Inl (IndexError ''list index out of range'')
     \<and> main ok_config no_event_world ok_test_world
       = (banner # fst (deploy_contract ok_config no_event_world)
            @ failure_report (IndexError ''list index out of range''), 0)"
    by blast
  with fetched empty show ?thesis by (simp add: failure_report_def)
qed

lemma deploy_dumps:
  "dumps (fst (deploy_contract cfg w)) = []
   \<or> (\<exists>d dep r. declare_r w = Inr d \<and> deploy_r w = Inr dep \<and> receipt_r w = Inr r
         \<and> events r \<noteq> []
         \<and> dumps (fst (deploy_contract cfg w))
             = [Open_json_dump ''deployment_info.json''
                  [(''contract_address'', hex (from_address (events r ! 0))),
                   (''class_hash'', hex (class_hash d)),
                   (''transaction_hash'', hex (invoke_result.transaction_hash dep)),
                   (''network'', ''starknet-sepolia'')]])"
  by (cases rule: deploy_contract_cases [where w = w and cfg = cfg])
     (simp_all add: trace_simps deployment_info_def)

lemma deploy_dumps_returned:
  "snd (deploy_contract cfg w) = Inr (Some a) \<Longrightarrow>
     dumps (fst (deploy_contract cfg w))
       = [Open_json_dump ''deployment_info.json''
            [(''contract_address'', hex a),
             (''class_hash'', hex (class_hash (projr (declare_r w)))),
             (''transaction_hash'', hex (invoke_result.transaction_hash (projr (deploy_r w)))),
             (''network'', ''starknet-sepolia'')]]"
  by (cases rule: deploy_contract_cases [where w = w and cfg = cfg])
     (simp_all add: trace_simps deployment_info_def)

lemma main_dumps: "dumps (fst (main cfg dw tw)) = dumps (fst (deploy_contract cfg dw))
                     \<or> dumps (fst (main cfg dw tw)) = []"
  by (cases rule: main_effects_cases [where cfg = cfg and dw = dw and tw = tw])
     (simp_all add: dumps_def banner_def configuration_warning_def requests_append
        test_dumps [unfolded dumps_def])

lemma main_dumps_configured:
  "ACCOUNT_ADDRESS cfg \<noteq> ''YOUR_ACCOUNT_ADDRESS_HERE'' \<Longrightarrow>
   PRIVATE_KEY cfg \<noteq> ''YOUR_PRIVATE_KEY_HERE'' \<Longrightarrow>
     dumps (fst (main cfg dw tw)) = dumps (fst (deploy_contract cfg dw))"
  by (cases rule: main_cases [where cfg = cfg and dw = dw and tw = tw])
     (simp_all add: dumps_def banner_def failure_report_def requests_append
        test_dumps [unfolded dumps_def])

lemma main_loads:
  "set (loads (fst (main cfg dw tw))) \<subseteq> {Open_json_load ''medical_scan_nft_compiled.json''}"
  using deploy_loads [of cfg dw] test_loads [of cfg tw]
  by (cases rule: main_effects_cases [where cfg = cfg and dw = dw and tw = tw])
     (auto simp add: loads_def banner_def configuration_warning_def requests_append)

text \<open>
  C5. In every run at most one file is written, \<open>deployment_info.json\<close>, and the object
  dumped into it has exactly the four keys \<open>contract_address\<close>, \<open>class_hash\<close>,
  \<open>transaction_hash\<close> and \<open>network\<close>, in this order: the first three values are \<open>hex\<close>
  of the address of the receipt's first event, of the declared class hash and of the
  deploy transaction's hash, the fourth is \<open>starknet-sepolia\<close>. With the configuration
  set, a deployment that returns an address has written the file. No run opens
  \<open>deployment_info.json\<close> for reading.
\<close>

theorem summary_file_contents:
  "(dumps (fst (main cfg dw tw)) = []
    \<or> (\<exists>d dep r. declare_r dw = Inr d \<and> deploy_r dw = Inr dep \<and> receipt_r dw = Inr r
          \<and> events r \<noteq> []
          \<and> dumps (fst (main cfg dw tw))
              = [Open_json_dump ''deployment_info.json''
                   [(''contract_address'', hex (from_address (events r ! 0))),
                    (''class_hash'', hex (class_hash d)),
                    (''transaction_hash'', hex (invoke_result.transaction_hash dep)),
                    (''network'', ''starknet-sepolia'')]]))
   \<and> (\<forall>a. ACCOUNT_ADDRESS cfg \<noteq> ''YOUR_ACCOUNT_ADDRESS_HERE''
          \<and> PRIVATE_KEY cfg \<noteq> ''YOUR_PRIVATE_KEY_HERE''
          \<and> snd (deploy_contract cfg dw) = Inr (Some a) \<longrightarrow>
        dumps (fst (main cfg dw tw))
          = [Open_json_dump ''deployment_info.json''
               [(''contract_address'', hex a),
                (''class_hash'', hex (class_hash (projr (declare_r dw)))),
                (''transaction_hash'', hex (invoke_result.transaction_hash (projr (deploy_r dw)))),
                (''network'', ''starknet-sepolia'')]])
   \<and> Open_json_load ''deployment_info.json'' \<notin> set (requests (fst (main cfg dw tw)))"
proof -
  have written: "dumps (fst (main cfg dw tw)) = []
    \<or> (\<exists>d dep r. declare_r dw = Inr d \<and> deploy_r dw = Inr dep \<and> receipt_r dw = Inr r
          \<and> events r \<noteq> []
          \<and> dumps (fst (main cfg dw tw))
              = [Open_json_dump ''deployment_info.json''
                   [(''contract_address'', hex (from_address (events r ! 0))),
                    (''class_hash'', hex (class_hash d)),
                    (''transaction_hash'', hex (invoke_result.transaction_hash dep)),
                    (''network'', ''starknet-sepolia'')]])"
    using main_dumps [of cfg dw tw] deploy_dumps [of cfg dw] by auto
  have returned: "\<forall>a. ACCOUNT_ADDRESS cfg \<noteq> ''YOUR_ACCOUNT_ADDRESS_HERE''
          \<and> PRIVATE_KEY cfg \<noteq> ''YOUR_PRIVATE_KEY_HERE''
          \<and> snd (deploy_contract cfg dw) = Inr (Some a) \<longrightarrow>
        dumps (fst (main cfg dw tw))
          = [Open_json_dump ''deployment_info.json''
               [(''contract_address'', hex a),
                (''class_hash'', hex (class_hash (projr (declare_r dw)))),
                (''transaction_hash'', hex (invoke_result.transaction_hash (projr (deploy_r dw)))),
                (''network'', ''starknet-sepolia'')]]"
    using main_dumps_configured [of cfg dw tw] deploy_dumps_returned [of cfg dw] by simp
  have "Open_json_load ''deployment_info.json'' \<notin> set (loads (fst (main cfg dw tw)))"
    using main_loads [of cfg dw tw] by auto
  then have not_read: "Open_json_load ''deployment_info.json'' \<notin> set (requests (fst (main cfg dw tw)))"
    by (simp add: loads_def)
  from written returned not_read show ?thesis by blast
qed

theorem summary_file_contents_witness:
  "dumps (fst (main ok_config ok_deploy_world ok_test_world))
     = [Open_json_dump ''deployment_info.json''
          [(''contract_address'', ''0x1234''),
           (''class_hash'', ''0x12''),
           (''transaction_hash'', ''0x13''),
           (''network'', ''starknet-sepolia'')]]"
proof -
  have "dumps (fst (main ok_config ok_deploy_world ok_test_world))
     = [Open_json_dump ''deployment_info.json''
          [(''contract_address'', hex 4660),
           (''class_hash'', hex (class_hash (projr (declare_r ok_deploy_world)))),
           (''transaction_hash'',
              hex (invoke_result.transaction_hash (projr (deploy_r ok_deploy_world)))),
           (''network'', ''starknet-sepolia'')]]"
    using summary_file_contents [of ok_config ok_deploy_world ok_test_world]
          ok_config_set ok_deploy_returns
    by blast
  then show ?thesis by (simp add: ok_deploy_world_def hex_def)
qed

lemma deploy_returned_effects:
  "snd (deploy_contract cfg w) = Inr (Some a) \<Longrightarrow>
     fst (deploy_contract cfg w) = deploy_trace cfg w"
  by (cases rule: deploy_contract_cases [where w = w and cfg = cfg]) simp_all

text \<open>
  C1. \<open>deploy_contract\<close> returns an address exactly when every step succeeds and the
  receipt carries an event, and the address is then the \<open>from_address\<close> of the event at
  index 0 of the receipt. That receipt is requested for the hash of the deploy
  transaction, right after the wait for that transaction completed. The same address is
  printed and is the \<open>contract_address\<close> of the summary that is written.
\<close>

theorem contract_address_from_first_event:
  "(snd (deploy_contract cfg w) = Inr (Some a) \<longleftrightarrow>
      (\<exists>kp ac c d dep r.
         key_pair_r w = Inr kp \<and> account_r w = Inr ac \<and> load_r w = Inr c \<and>
         declare_r w = Inr d \<and> wait_declare_r w = Inr () \<and> deploy_r w = Inr dep \<and>
         wait_deploy_r w = Inr () \<and> receipt_r w = Inr r \<and> events r \<noteq> [] \<and>
         dump_r w = Inr () \<and> a = from_address (events r ! 0)))
   \<and> (\<forall>d dep. snd (deploy_contract cfg w) = Inr (Some a) \<and> declare_r w = Inr d
          \<and> deploy_r w = Inr dep \<longrightarrow>
        sublist
          [Submitted (Wait_for_tx (invoke_result.transaction_hash dep)),
           Completed (Wait_for_tx (invoke_result.transaction_hash dep)),
           Submitted (Get_transaction_receipt (invoke_result.transaction_hash dep)),
           Completed (Get_transaction_receipt (invoke_result.transaction_hash dep))]
          (fst (deploy_contract cfg w))
        \<and> Print (U_1F4CD @ '' Contract Address: '' @ hex a) \<in> set (fst (deploy_contract cfg w))
        \<and> Called (Open_json_dump ''deployment_info.json''
                    [(''contract_address'', hex a),
                     (''class_hash'', hex (class_hash d)),
                     (''transaction_hash'', hex (invoke_result.transaction_hash dep)),
                     (''network'', ''starknet-sepolia'')])
            \<in> set (fst (deploy_contract cfg w)))"
proof -
  have recorded:
    "sublist
          [Submitted (Wait_for_tx (invoke_result.transaction_hash dep)),
           Completed (Wait_for_tx (invoke_result.transaction_hash dep)),
           Submitted (Get_transaction_receipt (invoke_result.transaction_hash dep)),
           Completed (Get_transaction_receipt (invoke_result.transaction_hash dep))]
          (fst (deploy_contract cfg w))
        \<and> Print (U_1F4CD @ '' Contract Address: '' @ hex a) \<in> set (fst (deploy_contract cfg w))
        \<and> Called (Open_json_dump ''deployment_info.json''
                    [(''contract_address'', hex a),
                     (''class_hash'', hex (class_hash d)),
                     (''transaction_hash'', hex (invoke_result.transaction_hash dep)),
                     (''network'', ''starknet-sepolia'')])
            \<in> set (fst (deploy_contract cfg w))"
    if ret: "snd (deploy_contract cfg w) = Inr (Some a)"
      and d: "declare_r w = Inr d" and dep: "deploy_r w = Inr dep" for d dep
  proof -
    from ret obtain r where r: "receipt_r w = Inr r" "a = from_address (events r ! 0)"
      by (auto simp add: deploy_contract_Some_iff)
    have es: "fst (deploy_contract cfg w) = deploy_trace cfg w"
      using ret by (rule deploy_returned_effects)
    have "deploy_trace cfg w
            = take 15 (deploy_trace cfg w)
                @ [Submitted (Wait_for_tx (invoke_result.transaction_hash dep)),
                   Completed (Wait_for_tx (invoke_result.transaction_hash dep)),
                   Submitted (Get_transaction_receipt (invoke_result.transaction_hash dep)),
                   Completed (Get_transaction_receipt (invoke_result.transaction_hash dep))]
                @ drop 19 (deploy_trace cfg w)"
      by (simp add: deploy_trace_def Let_def dep)
    then have "sublist
          [Submitted (Wait_for_tx (invoke_result.transaction_hash dep)),
           Completed (Wait_for_tx (invoke_result.transaction_hash dep)),
           Submitted (Get_transaction_receipt (invoke_result.transaction_hash dep)),
           Completed (Get_transaction_receipt (invoke_result.transaction_hash dep))]
          (deploy_trace cfg w)"
      by (metis sublist_appendI)
    moreover have "Print (U_1F4CD @ '' Contract Address: '' @ hex a) \<in> set (deploy_trace cfg w)"
      by (simp add: deploy_trace_def Let_def r)
    moreover have "Called (Open_json_dump ''deployment_info.json''
                    [(''contract_address'', hex a),
                     (''class_hash'', hex (class_hash d)),
                     (''transaction_hash'', hex (invoke_result.transaction_hash dep)),
                     (''network'', ''starknet-sepolia'')])
            \<in> set (deploy_trace cfg w)"
      by (simp add: deploy_trace_def Let_def deployment_info_def r d dep)
    ultimately show ?thesis using es by simp
  qed
  with deploy_contract_Some_iff [of cfg w a] show ?thesis by blast
qed

theorem contract_address_from_first_event_witness:
  "snd (deploy_contract ok_config ok_deploy_world) = Inr (Some 4660)
   \<and> sublist [Submitted (Wait_for_tx 19), Completed (Wait_for_tx 19),
              Submitted (Get_transaction_receipt 19), Completed (Get_transaction_receipt 19)]
       (fst (deploy_contract ok_config ok_deploy_world))
   \<and> Called (Open_json_dump ''deployment_info.json''
               [(''contract_address'', ''0x1234''),
                (''class_hash'', ''0x12''),
                (''transaction_hash'', ''0x13''),
                (''network'', ''starknet-sepolia'')])
       \<in> set (fst (deploy_contract ok_config ok_deploy_world))"
proof -
  note h = contract_address_from_first_event [of ok_config ok_deploy_world 4660]
  have ok: "\<exists>kp ac c d dep r.
         key_pair_r ok_deploy_world = Inr kp \<and> account_r ok_deploy_world = Inr ac \<and>
         load_r ok_deploy_world = Inr c \<and> declare_r ok_deploy_world = Inr d \<and>
         wait_declare_r ok_deploy_world = Inr () \<and> deploy_r ok_deploy_world = Inr dep \<and>
         wait_deploy_r ok_deploy_world = Inr () \<and> receipt_r ok_deploy_world = Inr r \<and>
         events r \<noteq> [] \<and> dump_r ok_deploy_world = Inr () \<and>
         4660 = from_address (events r ! 0)"
    by (simp add: ok_deploy_world_def)
  with h have ret: "snd (deploy_contract ok_config ok_deploy_world) = Inr (Some 4660)"
    by blast
  have d: "declare_r ok_deploy_world
             = Inr \<lparr>declare_result.transaction_hash = 17, class_hash = 18\<rparr>"
    and dep: "deploy_r ok_deploy_world = Inr \<lparr>invoke_result.transaction_hash = 19\<rparr>"
    by (simp_all add: ok_deploy_world_def)
  from h ret d dep have
    "sublist
       [Submitted (Wait_for_tx (invoke_result.transaction_hash \<lparr>invoke_result.transaction_hash = 19\<rparr>)),
        Completed (Wait_for_tx (invoke_result.transaction_hash \<lparr>invoke_result.transaction_hash = 19\<rparr>)),
        Submitted (Get_transaction_receipt
                     (invoke_result.transaction_hash \<lparr>invoke_result.transaction_hash = 19\<rparr>)),
        Completed (Get_transaction_receipt
                     (invoke_result.transaction_hash \<lparr>invoke_result.transaction_hash = 19\<rparr>))]
       (fst (deploy_contract ok_config ok_deploy_world))
     \<and> Called (Open_json_dump ''deployment_info.json''
                 [(''contract_address'', hex 4660),
                  (''class_hash'',
                     hex (class_hash \<lparr>declare_result.transaction_hash = 17, class_hash = 18\<rparr>)),
                  (''transaction_hash'',
                     hex (invoke_result.transaction_hash \<lparr>invoke_result.transaction_hash = 19\<rparr>)),
                  (''network'', ''starknet-sepolia'')])
         \<in> set (fst (deploy_contract ok_config ok_deploy_world))"
    by blast
  with ret show ?thesis by (simp add: hex_def)
qed

text \<open>
  C2. \<open>deploy_contract\<close> submits at most one \<open>sign_invoke_v1\<close> transaction. It submits
  one exactly when the declare transaction was confirmed, and that transaction has the
  single call to the class hash the declare step returned, with the selector
  \<open>constructor\<close> and an empty calldata.
\<close>

theorem deploy_invokes_constructor:
  "(sign_invokes (fst (deploy_contract cfg w)) \<noteq> [] \<longleftrightarrow>
      (\<exists>kp ac c d. key_pair_r w = Inr kp \<and> account_r w = Inr ac \<and> load_r w = Inr c
         \<and> declare_r w = Inr d \<and> wait_declare_r w = Inr ()))
   \<and> (\<forall>d. declare_r w = Inr d \<and> sign_invokes (fst (deploy_contract cfg w)) \<noteq> [] \<longrightarrow>
        sign_invokes (fst (deploy_contract cfg w))
          = [Sign_invoke_v1
               [\<lparr>to_addr = class_hash d, selector = ''constructor'', calldata = []\<rparr>]
               (10 ^ 16)])
   \<and> length (sign_invokes (fst (deploy_contract cfg w))) \<le> 1"
  by (cases rule: deploy_contract_cases [where w = w and cfg = cfg])
     (simp_all add: sign_invokes_def trace_simps int_1e16_def)

theorem deploy_invokes_constructor_witness:
  "sign_invokes (fst (deploy_contract ok_config ok_deploy_world))
     = [Sign_invoke_v1 [\<lparr>to_addr = 18, selector = ''constructor'', calldata = []\<rparr>]
          10000000000000000]"
proof -
  note h = deploy_invokes_constructor [of ok_config ok_deploy_world]
  have reached: "\<exists>kp ac c d. key_pair_r ok_deploy_world = Inr kp
      \<and> account_r ok_deploy_world = Inr ac \<and> load_r ok_deploy_world = Inr c
      \<and> declare_r ok_deploy_world = Inr d \<and> wait_declare_r ok_deploy_world = Inr ()"
    by (simp add: ok_deploy_world_def)
  have d: "declare_r ok_deploy_world
             = Inr \<lparr>declare_result.transaction_hash = 17, class_hash = 18\<rparr>"
    by (simp add: ok_deploy_world_def)
  from h reached d have "sign_invokes (fst (deploy_contract ok_config ok_deploy_world))
          = [Sign_invoke_v1
               [\<lparr>to_addr = class_hash \<lparr>declare_result.transaction_hash = 17, class_hash = 18\<rparr>,
                 selector = ''constructor'', calldata = []\<rparr>]
               (10 ^ 16)]"
    by blast
  then show ?thesis by simp
qed

lemma main_network_complete:
  assumes "ACCOUNT_ADDRESS cfg \<noteq> ''YOUR_ACCOUNT_ADDRESS_HERE''"
    and "PRIVATE_KEY cfg \<noteq> ''YOUR_PRIVATE_KEY_HERE''"
    and "snd (deploy_contract cfg dw) = Inr (Some a)" and "a \<noteq> 0"
    and "snd (test_contract cfg tw a) = Inr ()"
  shows "network_operations (fst (main cfg dw tw)) = deploy_plan dw @ test_plan tw"
  using assms deploy_network_complete [of cfg dw a] test_network_complete [of cfg tw a "()"]
  by (cases rule: main_cases [where cfg = cfg and dw = dw and tw = tw])
     (simp_all add: network_operations_def banner_def requests_append)

text \<open>
  C7. In every run the effects are sequential: each request that is submitted completes
  before anything else happens. The network operations of a run are an initial segment
  of the list declare, wait for the declare transaction, deploy invoke, wait for the
  deploy transaction, fetch its receipt, read the total supply, mint, wait for the mint
  transaction, read the total supply, read the metadata of token 1; a run in which
  nothing fails and the address is truthy performs the whole list.
\<close>

theorem network_operations_in_order:
  "sequential (fst (main cfg dw tw))
   \<and> prefix (network_operations (fst (main cfg dw tw))) (deploy_plan dw @ test_plan tw)
   \<and> (\<forall>a. ACCOUNT_ADDRESS cfg \<noteq> ''YOUR_ACCOUNT_ADDRESS_HERE''
          \<and> PRIVATE_KEY cfg \<noteq> ''YOUR_PRIVATE_KEY_HERE''
          \<and> snd (deploy_contract cfg dw) = Inr (Some a) \<and> a \<noteq> 0
          \<and> snd (test_contract cfg tw a) = Inr () \<longrightarrow>
        network_operations (fst (main cfg dw tw)) = deploy_plan dw @ test_plan tw)"
  using main_sequential [of cfg dw tw] main_network_prefix [of cfg dw tw]
        main_network_complete [of cfg dw _ tw]
  by blast

lemma ok_test_returns: "snd (test_contract ok_config ok_test_world 4660) = Inr ()"
  by (simp add: test_contract_returns_iff ok_test_world_def)

theorem network_operations_in_order_witness:
  "network_operations (fst (main ok_config ok_deploy_world ok_test_world))
     = [Sign_declare_v2 (PyObject ''{...}'') 10000000000000000,
        Wait_for_tx 17,
        Sign_invoke_v1 [\<lparr>to_addr = 18, selector = ''constructor'', calldata = []\<rparr>]
          10000000000000000,
        Wait_for_tx 19,
        Get_transaction_receipt 19,
        Function_call ''get_total_supply'' [],
        Function_invoke_v1 ''mint_medical_nft''
          [(''patient_id'', 1234567890),
           (''scan_type'', 1),
           (''ipfs_hash'', 0x1234567890abcdef),
           (''doctor'', 0x9876543210fedcba),
           (''upload_timestamp'', 1640995200),
           (''diagnosis_summary'', 0xabcdef1234567890),
           (''notes'', 0xfedcba0987654321)]
          10000000000000000,
        Wait_for_tx 20,
        Function_call ''get_total_supply'' [],
        Function_call ''get_token_metadata'' [(''token_id'', 1)]]"
proof -
  have "ACCOUNT_ADDRESS ok_config \<noteq> ''YOUR_ACCOUNT_ADDRESS_HERE''
          \<and> PRIVATE_KEY ok_config \<noteq> ''YOUR_PRIVATE_KEY_HERE''
          \<and> snd (deploy_contract ok_config ok_deploy_world) = Inr (Some 4660) \<and> (4660::int) \<noteq> 0
          \<and> snd (test_contract ok_config ok_test_world 4660) = Inr ()"
    using ok_config_set ok_deploy_returns ok_test_returns by simp
  with network_operations_in_order [of ok_config ok_deploy_world ok_test_world]
  have "network_operations (fst (main ok_config ok_deploy_world ok_test_world))
          = deploy_plan ok_deploy_world @ test_plan ok_test_world"
    by blast
  then show ?thesis
    by (simp add: deploy_plan_def test_plan_def ok_deploy_world_def ok_test_world_def)
qed

lemma map_filter_append:
  "List.map_filter f (xs @ ys) = List.map_filter f xs @ List.map_filter f ys"
  by (simp add: List.map_filter_def)

lemma prefix_map_filter:
  "prefix xs ys \<Longrightarrow> prefix (List.map_filter f xs) (List.map_filter f ys)"
  by (auto simp add: prefix_def map_filter_append)

lemma max_fee_requests:
  "List.map_filter max_fee (requests es) = List.map_filter max_fee (network_operations es)"
proof (induction es rule: requests.induct)
  case (2 q es)
  then show ?case by (cases q) (simp_all add: network_operations_def List.map_filter_simps)
next
  case (3 q es)
  then show ?case by (cases q) (simp_all add: network_operations_def List.map_filter_simps)
qed (simp_all add: network_operations_def List.map_filter_simps)

lemma plan_fees:
  "List.map_filter max_fee (deploy_plan dw @ test_plan tw) = [10 ^ 16, 10 ^ 16, 10 ^ 16]"
  by (simp add: deploy_plan_def test_plan_def List.map_filter_simps)

text \<open>
  C8. The fee ceilings of the requests of a run, in order, are an initial segment of
  three times \<open>10^16\<close>: the declare, the deploy invoke and the mint each carry exactly
  \<open>10^16\<close>, and no other request carries a fee. A run in which nothing fails and the
  address is truthy sends all three.
\<close>

theorem max_fee_is_1e16:
  "prefix (List.map_filter max_fee (requests (fst (main cfg dw tw)))) [10 ^ 16, 10 ^ 16, 10 ^ 16]
   \<and> (\<forall>q f. q \<in> set (requests (fst (main cfg dw tw))) \<and> max_fee q = Some f \<longrightarrow> f = 10 ^ 16)
   \<and> (\<forall>a. ACCOUNT_ADDRESS cfg \<noteq> ''YOUR_ACCOUNT_ADDRESS_HERE''
          \<and> PRIVATE_KEY cfg \<noteq> ''YOUR_PRIVATE_KEY_HERE''
          \<and> snd (deploy_contract cfg dw) = Inr (Some a) \<and> a \<noteq> 0
          \<and> snd (test_contract cfg tw a) = Inr () \<longrightarrow>
        List.map_filter max_fee (requests (fst (main cfg dw tw))) = [10 ^ 16, 10 ^ 16, 10 ^ 16])"
proof -
  have fees: "prefix (List.map_filter max_fee (requests (fst (main cfg dw tw))))
                [10 ^ 16, 10 ^ 16, 10 ^ 16]"
    using prefix_map_filter [OF main_network_prefix [of cfg dw tw], of max_fee]
    by (simp add: max_fee_requests plan_fees)
  have each: "f = 10 ^ 16"
    if "q \<in> set (requests (fst (main cfg dw tw)))" and "max_fee q = Some f" for q f
  proof -
    from that have "f \<in> set (List.map_filter max_fee (requests (fst (main cfg dw tw))))"
      by (force simp add: List.map_filter_def)
    with fees have "f \<in> set [10 ^ 16, 10 ^ 16, 10 ^ 16 :: int]"
      using set_mono_prefix by blast
    then show ?thesis by simp
  qed
  have all: "List.map_filter max_fee (requests (fst (main cfg dw tw))) = [10 ^ 16, 10 ^ 16, 10 ^ 16]"
    if "ACCOUNT_ADDRESS cfg \<noteq> ''YOUR_ACCOUNT_ADDRESS_HERE''"
      and "PRIVATE_KEY cfg \<noteq> ''YOUR_PRIVATE_KEY_HERE''"
      and "snd (deploy_contract cfg dw) = Inr (Some a)" and "a \<noteq> 0"
      and "snd (test_contract cfg tw a) = Inr ()" for a
    using main_network_complete [OF that] by (simp add: max_fee_requests plan_fees)
  from fees each all show ?thesis by blast
qed

theorem max_fee_is_1e16_witness:
  "List.map_filter max_fee (requests (fst (main ok_config ok_deploy_world ok_test_world)))
     = [10000000000000000, 10000000000000000, 10000000000000000]"
proof -
  have "ACCOUNT_ADDRESS ok_config \<noteq> ''YOUR_ACCOUNT_ADDRESS_HERE''
          \<and> PRIVATE_KEY ok_config \<noteq> ''YOUR_PRIVATE_KEY_HERE''
          \<and> snd (deploy_contract ok_config ok_deploy_world) = Inr (Some 4660) \<and> (4660::int) \<noteq> 0
          \<and> snd (test_contract ok_config ok_test_world 4660) = Inr ()"
    using ok_config_set ok_deploy_returns ok_test_returns by simp
  with max_fee_is_1e16 [of ok_config ok_deploy_world ok_test_world]
  have "List.map_filter max_fee (requests (fst (main ok_config ok_deploy_world ok_test_world)))
          = [10 ^ 16, 10 ^ 16, 10 ^ 16]"
    by blast
  then show ?thesis by simp
qed

end
